theory Spec2Isabelle
  imports Complex_Main
begin

section \<open>JavaScript values used by the editor\<close>

text \<open>
  The TypeScript sources of the editor are \<^verbatim>\<open>src/App.tsx\<close>,
  \<^verbatim>\<open>src/components/VideoTimeline.tsx\<close> and \<^verbatim>\<open>src/components/ExportOptions.tsx\<close>;
  the functions of these files that hold the upload, processing, timeline and estimation
  logic are modelled here. A JavaScript \<^verbatim>\<open>number\<close> that holds a finite quantity is modelled as a \<^typ>\<open>real\<close>
  (byte counts and list indices as \<^typ>\<open>nat\<close>); the rounding of IEEE doubles is not
  modelled. The functions modelled here compare, cap and add such numbers, or take floors
  and remainders that doubles compute exactly, so the properties below do not depend on
  that rounding. The size and time estimates of \<open>ExportOptions\<close> do: they are products of
  doubles passed to \<^verbatim>\<open>Math.round\<close>. There the rounding of each literal, quotient and
  product that need not be a double is written out as a function \<open>fl\<close>, and \<open>binary64\<close>
  is that function for IEEE double precision.
  Every call of \<^verbatim>\<open>Math.random()\<close> reads the next element of a sequence
  \<open>rnd :: nat \<Rightarrow> real\<close>; the number of calls made so far is threaded through the
  functions that draw.
\<close>

definition digit_char :: "nat \<Rightarrow> char" where
  "digit_char d = ''0123456789'' ! d"

text \<open>Decimal notation of a natural number, as \<^verbatim>\<open>Number.prototype.toString\<close>
  prints an integer below \<open>10^21\<close>.\<close>

fun decimal :: "nat \<Rightarrow> string" where
  "decimal n = (if n < 10 then [digit_char n] else decimal (n div 10) @ [digit_char (n mod 10)])"

declare decimal.simps [simp del]

definition js_int_toString :: "int \<Rightarrow> string" where
  "js_int_toString i = (if i < 0 then CHR ''-'' # decimal (nat (- i)) else decimal (nat i))"

text \<open>\<^verbatim>\<open>s.padStart(n, c)\<close> for a one-character pad string \<open>c\<close>.\<close>

definition padStart :: "nat \<Rightarrow> char \<Rightarrow> string \<Rightarrow> string" where
  "padStart n c s = replicate (n - length s) c @ s"

section \<open>App.tsx: the project list\<close>

datatype status = uploading | processing | completed | error

record suggestion =
  type_s :: string
  title :: string
  description :: string
  confidence :: real
  action :: string

record VideoProject =
  id_p :: string
  name_p :: string
  status :: status
  progress :: real
  duration_p :: "string option"
  size_p :: "string option"
  aiSuggestions :: "suggestion list option"

text \<open>The fields of a browser \<^verbatim>\<open>File\<close> that the code reads.\<close>

record File =
  name_f :: string
  type_f :: string
  size_f :: nat

subsection \<open>validateVideoFile\<close>

record validation =
  valid :: bool
  error_v :: "string option"

definition maxSize :: nat where
  "maxSize = 500 * 1024 * 1024"

definition allowedTypes :: "string list" where
  "allowedTypes = [''video/mp4'', ''video/mov'', ''video/avi'', ''video/mkv'', ''video/webm'']"

definition type_error_message :: string where
  "type_error_message = ''Please upload a valid video file (MP4, MOV, AVI, MKV, WebM)''"

definition size_error_message :: string where
  "size_error_message = ''File size must be less than 500MB''"

definition validateVideoFile :: "File \<Rightarrow> validation" where
  "validateVideoFile file =
     (if type_f file \<notin> set allowedTypes
      then \<lparr>valid = False, error_v = Some type_error_message\<rparr>
      else if size_f file > maxSize
      then \<lparr>valid = False, error_v = Some size_error_message\<rparr>
      else \<lparr>valid = True, error_v = None\<rparr>)"

subsection \<open>handleFileUpload\<close>

text \<open>
  \<^verbatim>\<open>x.toFixed(1)\<close> for \<open>x \<ge> 0\<close>: the integer \<open>n\<close> with \<open>n / 10\<close> nearest to \<open>x\<close>,
  the larger one on a tie, printed with one digit after the point. The argument here is
  a byte count divided by \<open>2^20\<close>, which a double holds exactly.
\<close>

definition toFixed1 :: "real \<Rightarrow> string" where
  "toFixed1 x = (let n = nat \<lfloor>x * 10 + 1 / 2\<rfloor>
                 in decimal (n div 10) @ ''.'' @ [digit_char (n mod 10)])"

text \<open>
  What one call of \<open>handleFileUpload\<close> does to the project list before it awaits the
  upload. \<open>user\<close> is the signed-in user's id if any, \<open>now\<close> the value of
  \<^verbatim>\<open>Date.now()\<close>. The two ways the call ends without creating a project are the silent
  return when nobody is signed in and the "Upload Error" toast with the validation
  message. The \<open>selectedFile\<close> state, which none of the functions here reads, is left out.
\<close>

datatype upload_refusal = NotSignedIn | UploadErrorToast "string option"

definition newProject :: "File \<Rightarrow> nat \<Rightarrow> VideoProject" where
  "newProject file now =
     \<lparr>id_p = decimal now, name_p = name_f file, status = uploading, progress = 0,
      duration_p = None,
      size_p = Some (toFixed1 (real (size_f file) / (1024 * 1024)) @ '' MB''),
      aiSuggestions = None\<rparr>"

definition handleFileUpload :: "string option \<Rightarrow> File \<Rightarrow> nat \<Rightarrow> VideoProject list
    \<Rightarrow> upload_refusal + VideoProject list" where
  "handleFileUpload user file now projects =
     (case user of
        None \<Rightarrow> Inl NotSignedIn
      | Some u \<Rightarrow>
          (let validation = validateVideoFile file
           in if \<not> valid validation then Inl (UploadErrorToast (error_v validation))
              else Inr (newProject file now # projects)))"

text \<open>The \<open>onProgress\<close> callback handed to the storage upload.\<close>

definition onProgress :: "string \<Rightarrow> real \<Rightarrow> VideoProject list \<Rightarrow> VideoProject list" where
  "onProgress pid percent prev =
     map (\<lambda>p. if id_p p = pid then p\<lparr>progress := min percent 15\<rparr> else p) prev"

text \<open>The update made when the awaited upload has returned.\<close>

definition uploadComplete :: "string \<Rightarrow> VideoProject list \<Rightarrow> VideoProject list" where
  "uploadComplete pid prev =
     map (\<lambda>p. if id_p p = pid then p\<lparr>status := processing, progress := 15\<rparr> else p) prev"

text \<open>The update made in the \<open>catch\<close> branch, when the upload has thrown.\<close>

definition uploadFailed :: "string \<Rightarrow> VideoProject list \<Rightarrow> VideoProject list" where
  "uploadFailed pid prev =
     map (\<lambda>p. if id_p p = pid then p\<lparr>status := error\<rparr> else p) prev"

text \<open>The list after the storage layer has called \<open>onProgress\<close> with each of the given
  percentages in turn.\<close>

definition reports :: "string \<Rightarrow> real list \<Rightarrow> VideoProject list \<Rightarrow> VideoProject list" where
  "reports pid percents ps = foldl (\<lambda>prev percent. onProgress pid percent prev) ps percents"

subsection \<open>generateAISuggestions\<close>

definition audioIssues :: "string list" where
  "audioIssues = [''Audio delay detected'', ''Background noise found'',
                  ''Volume inconsistency detected'']"

text \<open>Reading \<open>audioIssues[i]\<close> inside a template literal: an index outside the array
  gives \<^verbatim>\<open>undefined\<close>, printed as such.\<close>

definition issue_at :: "int \<Rightarrow> string" where
  "issue_at i = (if 0 \<le> i \<and> i < int (length audioIssues) then audioIssues ! nat i
                 else ''undefined'')"

text \<open>
  The suggestions built by one call, and the number of \<^verbatim>\<open>Math.random()\<close> calls made
  after it, when \<open>k\<close> calls were made before. The draws are taken in the order of the
  source: scene count, scene confidence, the audio test, then (if it passes) issue index,
  the two parts of the timestamp and the audio confidence, then quality improvement and
  quality confidence.
\<close>

definition build_suggestions :: "(nat \<Rightarrow> real) \<Rightarrow> nat \<Rightarrow> suggestion list \<times> nat" where
  "build_suggestions rnd k =
     (let sceneCount = \<lfloor>rnd k * 12\<rfloor> + 3;
          scene = \<lparr>type_s = ''scene_detection'', title = ''Scene Detection'',
                   description = ''Found '' @ js_int_toString sceneCount
                                 @ '' distinct scenes. Auto-cut recommended.'',
                   confidence = 0.85 + rnd (k + 1) * 0.1, action = ''auto_cut''\<rparr>;
          (audio_part, k') =
            (if rnd (k + 2) > 0.3
             then (let issue = issue_at \<lfloor>rnd (k + 3) * real (length audioIssues)\<rfloor>;
                       timestamp = js_int_toString \<lfloor>rnd (k + 4) * 3\<rfloor> @ '':''
                                   @ padStart 2 CHR ''0'' (js_int_toString \<lfloor>rnd (k + 5) * 60\<rfloor>)
                   in ([\<lparr>type_s = ''audio_sync'', title = ''Audio Enhancement'',
                          description = issue @ '' at '' @ timestamp @ ''. Auto-fix available.'',
                          confidence = 0.75 + rnd (k + 6) * 0.15, action = ''fix_audio''\<rparr>],
                       k + 7))
             else ([], k + 3));
          qualityImprovement = \<lfloor>rnd k' * 25\<rfloor> + 10;
          quality = \<lparr>type_s = ''quality_enhancement'', title = ''Quality Enhancement'',
                     description = ''Video quality can be improved by ''
                                   @ js_int_toString qualityImprovement @ ''%.'',
                     confidence = 0.70 + rnd (k' + 1) * 0.2, action = ''enhance_quality''\<rparr>
      in (scene # audio_part @ [quality], k' + 2))"

text \<open>
  \<open>generateAISuggestions\<close> looks the project up in \<open>snapshot\<close>, the value of the
  \<open>projects\<close> state that the enclosing render closed over, and returns without drawing
  when it is not there; otherwise it stores the suggestions in every project of the current
  list that has the id.
\<close>

definition generateAISuggestions :: "VideoProject list \<Rightarrow> string \<Rightarrow> (nat \<Rightarrow> real)
    \<Rightarrow> nat \<times> VideoProject list \<Rightarrow> nat \<times> VideoProject list" where
  "generateAISuggestions snapshot projectId rnd st =
     (case st of (k, prev) \<Rightarrow>
        (case find (\<lambda>p. id_p p = projectId) snapshot of
           None \<Rightarrow> (k, prev)
         | Some project \<Rightarrow>
             (case build_suggestions rnd k of (suggestions, k') \<Rightarrow>
                (k', map (\<lambda>p. if id_p p = projectId
                               then p\<lparr>aiSuggestions := Some suggestions\<rparr> else p) prev))))"

subsection \<open>simulateProcessing\<close>

definition processingSteps :: "(string \<times> real) list" where
  "processingSteps =
     [(''Uploading video...'', 15),
      (''Analyzing video content...'', 30),
      (''Detecting scenes and cuts...'', 45),
      (''Processing audio tracks...'', 60),
      (''Applying AI enhancements...'', 75),
      (''Generating transitions...'', 90),
      (''Finalizing output...'', 100)]"

text \<open>The two local variables of \<open>simulateProcessing\<close> that the interval callback
  reads and writes.\<close>

record sim =
  progress_l :: real
  currentStepIndex :: nat

definition sim_start :: sim where
  "sim_start = \<lparr>progress_l = 0, currentStepIndex = 0\<rparr>"

text \<open>
  The state seen by the interval callback: its locals while the interval is set (\<open>None\<close>
  once \<open>clearInterval\<close> has run), the number of \<^verbatim>\<open>Math.random()\<close> calls made so
  far, and the current \<open>projects\<close> list.
\<close>

record run =
  timer :: "sim option"
  calls :: nat
  projects :: "VideoProject list"

datatype js_error = TypeError

text \<open>
  The first half of the callback: read the current step (a \<open>TypeError\<close> if the index
  is past the table, since the code then reads \<open>progress\<close> of \<^verbatim>\<open>undefined\<close>), then
  either add \<open>random * 8 + 2\<close> capped at the step's target, or move to the next step.
\<close>

definition advance :: "(nat \<Rightarrow> real) \<Rightarrow> nat \<Rightarrow> sim \<Rightarrow> js_error + sim \<times> nat" where
  "advance rnd k s =
     (if currentStepIndex s < length processingSteps
      then (let targetProgress = snd (processingSteps ! currentStepIndex s)
            in if progress_l s < targetProgress
               then Inr (s\<lparr>progress_l := min (progress_l s + (rnd k * 8 + 2)) targetProgress\<rparr>,
                         Suc k)
               else Inr (s\<lparr>currentStepIndex := Suc (currentStepIndex s)\<rparr>, k))
      else Inl TypeError)"

text \<open>
  One firing of the interval. In the finishing branch the project is marked completed
  with progress 100, \<open>generateAISuggestions\<close> runs and the interval is cleared (the
  \<open>await\<close> in between resumes long before the next firing is due, so no firing sees
  the interval still set); in the other branch the project gets the local progress and the
  status derived from it. The toast of the finishing branch changes no state.
\<close>

definition interval_callback :: "VideoProject list \<Rightarrow> string \<Rightarrow> (nat \<Rightarrow> real) \<Rightarrow> run
    \<Rightarrow> js_error + run" where
  "interval_callback snapshot projectId rnd r =
     (case timer r of
        None \<Rightarrow> Inr r
      | Some s \<Rightarrow>
          (case advance rnd (calls r) s of
             Inl e \<Rightarrow> Inl e
           | Inr (s', k) \<Rightarrow>
               (if progress_l s' \<ge> 100 \<or> currentStepIndex s' \<ge> length processingSteps
                then (let done = map (\<lambda>p. if id_p p = projectId
                                            then p\<lparr>status := completed, progress := 100,
                                                   duration_p := Some ''1:45''\<rparr>
                                            else p) (projects r);
                          (k', ps) = generateAISuggestions snapshot projectId rnd (k, done)
                      in Inr \<lparr>timer = None, calls = k', projects = ps\<rparr>)
                else (let status' = (if progress_l s' < 20 then uploading else processing)
                      in Inr \<lparr>timer = Some s', calls = k,
                              projects = map (\<lambda>p. if id_p p = projectId
                                                    then p\<lparr>status := status',
                                                           progress := progress_l s'\<rparr>
                                                    else p) (projects r)\<rparr>))))"

text \<open>\<open>simulateProcessing\<close> sets the interval with fresh locals; \<open>firings n\<close> is the
  state after the callback has fired \<open>n\<close> times.\<close>

definition simulateProcessing :: "nat \<Rightarrow> VideoProject list \<Rightarrow> run" where
  "simulateProcessing k ps = \<lparr>timer = Some sim_start, calls = k, projects = ps\<rparr>"

fun firings :: "nat \<Rightarrow> VideoProject list \<Rightarrow> string \<Rightarrow> (nat \<Rightarrow> real) \<Rightarrow> run
    \<Rightarrow> js_error + run" where
  "firings 0 snapshot projectId rnd r = Inr r"
| "firings (Suc n) snapshot projectId rnd r =
     (case interval_callback snapshot projectId rnd r of
        Inl e \<Rightarrow> Inl e
      | Inr r' \<Rightarrow> firings n snapshot projectId rnd r')"

text \<open>The progress values of the projects with a given id, as a reader of the list
  observes them.\<close>

definition progress_of :: "string \<Rightarrow> VideoProject list \<Rightarrow> real list" where
  "progress_of pid ps = map progress (filter (\<lambda>p. id_p p = pid) ps)"

definition status_of :: "string \<Rightarrow> VideoProject list \<Rightarrow> status list" where
  "status_of pid ps = map status (filter (\<lambda>p. id_p p = pid) ps)"

subsection \<open>formatTime and the playback state\<close>

text \<open>
  The remainder \<^verbatim>\<open>x % y\<close> of JavaScript on finite numbers with \<open>y \<noteq> 0\<close>: the
  quotient is truncated towards zero, so the result has the sign of \<open>x\<close>.
\<close>

definition js_trunc :: "real \<Rightarrow> int" where
  "js_trunc x = (if 0 \<le> x then \<lfloor>x\<rfloor> else \<lceil>x\<rceil>)"

definition js_rem :: "real \<Rightarrow> real \<Rightarrow> real" where
  "js_rem x y = x - y * of_int (js_trunc (x / y))"

definition formatTime_App :: "real \<Rightarrow> string" where
  "formatTime_App seconds =
     (let mins = \<lfloor>seconds / 60\<rfloor>;
          secs = \<lfloor>js_rem seconds 60\<rfloor>
      in js_int_toString mins @ '':'' @ padStart 2 CHR ''0'' (js_int_toString secs))"

text \<open>The \<open>duration\<close> state of \<open>App\<close>; its setter is never called.\<close>

definition duration_App :: real where
  "duration_App = 154"

section \<open>VideoTimeline.tsx\<close>

datatype segment_type = scene | transition | audio | effect

record TimelineSegment =
  id_t :: string
  start :: real
  end_t :: real
  type_t :: segment_type
  confidence_t :: real
  label :: string
  color :: string

definition defaultSegments :: "TimelineSegment list" where
  "defaultSegments =
     [\<lparr>id_t = ''1'', start = 0, end_t = 25, type_t = scene, confidence_t = 0.92,
       label = ''Opening Scene'', color = ''bg-blue-500''\<rparr>,
      \<lparr>id_t = ''2'', start = 25, end_t = 45, type_t = transition, confidence_t = 0.78,
       label = ''Fade Transition'', color = ''bg-purple-500''\<rparr>,
      \<lparr>id_t = ''3'', start = 45, end_t = 85, type_t = scene, confidence_t = 0.89,
       label = ''Main Content'', color = ''bg-green-500''\<rparr>,
      \<lparr>id_t = ''4'', start = 85, end_t = 120, type_t = audio, confidence_t = 0.85,
       label = ''Music Overlay'', color = ''bg-yellow-500''\<rparr>,
      \<lparr>id_t = ''5'', start = 120, end_t = 154, type_t = scene, confidence_t = 0.94,
       label = ''Closing Scene'', color = ''bg-red-500''\<rparr>]"

text \<open>The segments the component draws: the \<open>segments\<close> prop (\<open>[]\<close> when the caller
  passes none, as \<open>App\<close> does), or the default ones when that is empty.\<close>

definition timelineSegments :: "TimelineSegment list \<Rightarrow> TimelineSegment list" where
  "timelineSegments segments = (if length segments > 0 then segments else defaultSegments)"

definition formatTime_Timeline :: "real \<Rightarrow> string" where
  "formatTime_Timeline seconds =
     (let mins = \<lfloor>seconds / 60\<rfloor>;
          secs = \<lfloor>js_rem seconds 60\<rfloor>
      in js_int_toString mins @ '':'' @ padStart 2 CHR ''0'' (js_int_toString secs))"

subsection \<open>handleTimelineClick\<close>

text \<open>
  The click handler divides by the width of the timeline element, which may be zero, so
  its intermediate values are JavaScript numbers with the two infinities and NaN. The
  operands that come from outside (\<open>clientX\<close>, the rectangle, \<open>duration\<close>) are finite.
\<close>

datatype jsnum = Fin real | PosInf | NegInf | NaN

text \<open>\<open>x / y\<close> for finite \<open>x\<close> and finite \<open>y \<ge> 0\<close> (a width is never negative).\<close>

definition js_div :: "real \<Rightarrow> real \<Rightarrow> jsnum" where
  "js_div x y = (if y \<noteq> 0 then Fin (x / y)
                 else if x > 0 then PosInf else if x < 0 then NegInf else NaN)"

fun js_mul :: "jsnum \<Rightarrow> real \<Rightarrow> jsnum" where
  "js_mul (Fin x) d = Fin (x * d)"
| "js_mul PosInf d = (if d > 0 then PosInf else if d < 0 then NegInf else NaN)"
| "js_mul NegInf d = (if d > 0 then NegInf else if d < 0 then PosInf else NaN)"
| "js_mul NaN d = NaN"

text \<open>\<^verbatim>\<open>Math.min(d, x)\<close> and \<^verbatim>\<open>Math.max(z, x)\<close> with a finite first argument.\<close>

fun Math_min :: "real \<Rightarrow> jsnum \<Rightarrow> jsnum" where
  "Math_min d (Fin x) = Fin (min d x)"
| "Math_min d PosInf = Fin d"
| "Math_min d NegInf = NegInf"
| "Math_min d NaN = NaN"

fun Math_max :: "real \<Rightarrow> jsnum \<Rightarrow> jsnum" where
  "Math_max z (Fin x) = Fin (max z x)"
| "Math_max z PosInf = PosInf"
| "Math_max z NegInf = Fin z"
| "Math_max z NaN = NaN"

record DOMRect =
  left :: real
  width :: real

text \<open>The time the click points at, before it is passed on.\<close>

definition newTime :: "DOMRect \<Rightarrow> real \<Rightarrow> real \<Rightarrow> jsnum" where
  "newTime rect clientX duration =
     (let clickX = clientX - left rect;
          percentage = js_div clickX (width rect)
      in js_mul percentage duration)"

text \<open>
  \<open>handleTimelineClick\<close>: \<open>None\<close> when the ref holds no element and nothing is done,
  otherwise the argument with which \<open>onTimeChange\<close> is called.
\<close>

definition handleTimelineClick :: "DOMRect option \<Rightarrow> real \<Rightarrow> real \<Rightarrow> jsnum option" where
  "handleTimelineClick timelineRef clientX duration =
     (case timelineRef of
        None \<Rightarrow> None
      | Some rect \<Rightarrow>
          Some (Math_max 0 (Math_min duration (newTime rect clientX duration))))"

section \<open>ExportOptions.tsx\<close>

subsection \<open>Rounding to the nearest double\<close>

text \<open>
  \<open>bit_length n\<close> is the number of binary digits of \<open>n\<close>, and \<open>exponent x\<close> the integer
  \<open>e\<close> with \<open>2^e \<le> \<bar>x\<bar> < 2^(e+1)\<close> for \<open>x \<noteq> 0\<close> (lemma \<open>exponent_bounds\<close>).
\<close>

fun bit_length :: "nat \<Rightarrow> nat" where
  "bit_length n = (if n = 0 then 0 else Suc (bit_length (n div 2)))"

declare bit_length.simps [simp del]

definition exponent :: "real \<Rightarrow> int" where
  "exponent x = (if 1 \<le> \<bar>x\<bar> then int (bit_length (nat \<lfloor>\<bar>x\<bar>\<rfloor>)) - 1
                 else - int (bit_length (nat \<lceil>1 / \<bar>x\<bar>\<rceil> - 1)))"

definition pow2 :: "int \<Rightarrow> real" where
  "pow2 e = (if 0 \<le> e then 2 ^ nat e else 1 / 2 ^ nat (- e))"

text \<open>The nearest integer, the even one of the two when \<open>y\<close> lies half-way.\<close>

definition round_half_even :: "real \<Rightarrow> int" where
  "round_half_even y =
     (let f = \<lfloor>y\<rfloor>
      in if y - of_int f < 1 / 2 then f
         else if y - of_int f > 1 / 2 then f + 1
         else if even f then f else f + 1)"

text \<open>
  The double nearest to \<open>x\<close> (IEEE 754 binary64, round to nearest, ties to even): \<open>x\<close> is
  rounded to a multiple of \<open>2^(e - 52)\<close>, which leaves 53 significant bits, and to a
  multiple of \<open>2^(-1074)\<close> in the subnormal range. Overflow to an infinity is not
  modelled: the definition is exact as long as the result stays below \<open>2^1024\<close>.
\<close>

definition binary64 :: "real \<Rightarrow> real" where
  "binary64 x =
     (if x = 0 then 0
      else (let e = max (exponent x - 52) (- 1074)
            in of_int (round_half_even (x / pow2 e)) * pow2 e))"

subsection \<open>updateEstimates\<close>

record ExportSettings =
  format :: string
  resolution :: string
  quality :: real
  bitrate :: real
  fps :: real
  codec :: string
  audioQuality :: real
  includeSubtitles :: bool
  watermark :: bool

text \<open>
  The multiplier table is an object literal, so a lookup also finds the properties that
  every object inherits from \<^verbatim>\<open>Object.prototype\<close>. These are their names (the last four
  are the legacy accessor helpers that browsers provide).
\<close>

definition Object_prototype_names :: "string list" where
  "Object_prototype_names =
     [''constructor'', ''hasOwnProperty'', ''isPrototypeOf'', ''propertyIsEnumerable'',
      ''toLocaleString'', ''toString'', ''valueOf'', ''__proto__'',
      ''__defineGetter__'', ''__defineSetter__'', ''__lookupGetter__'', ''__lookupSetter__'']"

text \<open>
  \<^verbatim>\<open>{...}[settings.resolution] || 1\<close>. The four own entries are non-zero numbers and
  are kept by \<^verbatim>\<open>||\<close>; \<open>0.6\<close> and \<open>0.3\<close> denote the nearest doubles. A name that is not
  found gives \<^verbatim>\<open>undefined\<close>, hence 1. An inherited name gives a function (for
  \<^verbatim>\<open>__proto__\<close> an object), which \<^verbatim>\<open>||\<close> keeps as well and which turns every product
  it enters into NaN: that result is \<open>None\<close>.
\<close>

definition resolutionMultiplier :: "(real \<Rightarrow> real) \<Rightarrow> string \<Rightarrow> real option" where
  "resolutionMultiplier fl res =
     (if res = ''3840x2160'' then Some 4
      else if res = ''1920x1080'' then Some 1
      else if res = ''1280x720'' then Some (fl 0.6)
      else if res = ''854x480'' then Some (fl 0.3)
      else if res \<in> set Object_prototype_names then None
      else Some 1)"

text \<open>\<^verbatim>\<open>Math.round\<close> on a finite number: the nearest integer, the larger one on a tie.\<close>

definition Math_round :: "real \<Rightarrow> int" where
  "Math_round x = \<lfloor>x + 1 / 2\<rfloor>"

text \<open>
  The two numbers \<open>updateEstimates\<close> computes, \<open>None\<close> for NaN. \<open>quality\<close> is a finite
  number; the quotient and each of the two products are rounded to a double.
\<close>

definition estimatedSizeMB :: "(real \<Rightarrow> real) \<Rightarrow> ExportSettings \<Rightarrow> int option" where
  "estimatedSizeMB fl settings =
     (case resolutionMultiplier fl (resolution settings) of
        None \<Rightarrow> None
      | Some m \<Rightarrow>
          (let qualityMultiplier = fl (quality settings / 100);
               baseSize = 45
           in Some (Math_round (fl (fl (baseSize * m) * qualityMultiplier)))))"

definition estimatedTimeMin :: "(real \<Rightarrow> real) \<Rightarrow> ExportSettings \<Rightarrow> int option" where
  "estimatedTimeMin fl settings =
     (case resolutionMultiplier fl (resolution settings) of
        None \<Rightarrow> None
      | Some m \<Rightarrow>
          (let qualityMultiplier = fl (quality settings / 100);
               baseTime = 2
           in Some (Math_round (fl (fl (baseTime * m) * qualityMultiplier)))))"

definition number_toString :: "int option \<Rightarrow> string" where
  "number_toString v = (case v of None \<Rightarrow> ''NaN'' | Some i \<Rightarrow> js_int_toString i)"

text \<open>The two state variables that \<open>updateEstimates\<close> sets.\<close>

record estimates =
  estimatedSize :: string
  estimatedTime :: string

definition updateEstimates :: "(real \<Rightarrow> real) \<Rightarrow> ExportSettings \<Rightarrow> estimates" where
  "updateEstimates fl settings =
     \<lparr>estimatedSize = ''~'' @ number_toString (estimatedSizeMB fl settings) @ '' MB'',
      estimatedTime = number_toString (estimatedTimeMin fl settings) @ ''-''
                      @ number_toString (map_option (\<lambda>t. t + 1) (estimatedTimeMin fl settings))
                      @ '' minutes''\<rparr>"

section \<open>Sample inputs\<close>

text \<open>A five-megabyte MP4 file, used where a property is evaluated on a concrete run.\<close>

definition clip :: File where
  "clip = \<lparr>name_f = ''clip.mp4'', type_f = ''video/mp4'', size_f = 5242880\<rparr>"

text \<open>The initial value of \<open>customSettings\<close>, which is also what the YouTube preset sets.\<close>

definition youtube :: ExportSettings where
  "youtube = \<lparr>format = ''mp4'', resolution = ''1920x1080'', quality = 80, bitrate = 8000,
              fps = 30, codec = ''h264'', audioQuality = 192, includeSubtitles = False,
              watermark = False\<rparr>"

section \<open>Properties\<close>

subsection \<open>validateVideoFile\<close>

lemma allowedTypes_set:
  "set allowedTypes = {''video/mp4'', ''video/mov'', ''video/avi'', ''video/mkv'', ''video/webm''}"
  by (simp add: allowedTypes_def)

text \<open>
  Claim C9. For every file, \<open>validateVideoFile\<close> answers \<open>valid = True\<close> exactly when
  the MIME type is one of video/mp4, video/mov, video/avi, video/mkv, video/webm and the
  size is at most \<open>500 * 1024 * 1024\<close> bytes, so that a file of exactly that size is
  accepted. Otherwise it answers \<open>valid = False\<close> with a non-empty error message, and
  a disallowed type gets the type message whatever the size is.
\<close>

theorem validateVideoFile_spec:
  "(valid (validateVideoFile f) \<longleftrightarrow>
      type_f f \<in> {''video/mp4'', ''video/mov'', ''video/avi'', ''video/mkv'', ''video/webm''}
      \<and> size_f f \<le> 500 * 1024 * 1024)
   \<and> (valid (validateVideoFile f) \<longrightarrow> error_v (validateVideoFile f) = None)
   \<and> (\<not> valid (validateVideoFile f) \<longrightarrow>
        (\<exists>e. error_v (validateVideoFile f) = Some e \<and> e \<noteq> []))
   \<and> (type_f f \<notin> set allowedTypes \<longrightarrow>
        validateVideoFile f = \<lparr>valid = False, error_v = Some type_error_message\<rparr>)
   \<and> (type_f f \<in> set allowedTypes \<and> size_f f > 500 * 1024 * 1024 \<longrightarrow>
        validateVideoFile f = \<lparr>valid = False, error_v = Some size_error_message\<rparr>)"
  unfolding allowedTypes_set [symmetric]
  by (simp add: validateVideoFile_def maxSize_def
      type_error_message_def size_error_message_def)

theorem validateVideoFile_spec_witness:
  "valid (validateVideoFile \<lparr>name_f = ''a.mp4'', type_f = ''video/mp4'', size_f = 524288000\<rparr>)
   \<and> \<not> valid (validateVideoFile \<lparr>name_f = ''a.mp4'', type_f = ''video/mp4'', size_f = 524288001\<rparr>)
   \<and> validateVideoFile \<lparr>name_f = ''a.mp4'', type_f = ''video/mp4'', size_f = 524288001\<rparr>
       = \<lparr>valid = False, error_v = Some size_error_message\<rparr>
   \<and> validateVideoFile \<lparr>name_f = ''a.png'', type_f = ''image/png'', size_f = 524288001\<rparr>
       = \<lparr>valid = False, error_v = Some type_error_message\<rparr>"
  using validateVideoFile_spec [of "\<lparr>name_f = ''a.mp4'', type_f = ''video/mp4'', size_f = 524288000\<rparr>"]
    validateVideoFile_spec [of "\<lparr>name_f = ''a.mp4'', type_f = ''video/mp4'', size_f = 524288001\<rparr>"]
    validateVideoFile_spec [of "\<lparr>name_f = ''a.png'', type_f = ''image/png'', size_f = 524288001\<rparr>"]
  by (simp add: allowedTypes_def)

subsection \<open>Reading the progress and status of a job\<close>

lemma in_progress_of: "p \<in> set ps \<Longrightarrow> id_p p = pid \<Longrightarrow> progress p \<in> set (progress_of pid ps)"
  by (auto simp: progress_of_def)

lemma in_status_of: "p \<in> set ps \<Longrightarrow> id_p p = pid \<Longrightarrow> status p \<in> set (status_of pid ps)"
  by (auto simp: status_of_def)

lemma progress_of_onProgress:
  "progress_of pid (onProgress pid x ps) = map (\<lambda>_. min x 15) (progress_of pid ps)"
  by (induction ps) (simp_all add: progress_of_def onProgress_def)

lemma progress_of_uploadComplete:
  "progress_of pid (uploadComplete pid ps) = map (\<lambda>_. 15) (progress_of pid ps)"
  by (induction ps) (simp_all add: progress_of_def uploadComplete_def)

lemma status_of_uploadComplete:
  "status_of pid (uploadComplete pid ps) = map (\<lambda>_. processing) (status_of pid ps)"
  by (induction ps) (simp_all add: status_of_def uploadComplete_def)

lemma progress_of_created:
  "handleFileUpload user file now prev = Inr ps \<Longrightarrow>
   progress_of (decimal now) ps = 0 # progress_of (decimal now) prev"
  by (auto simp: handleFileUpload_def progress_of_def newProject_def Let_def
      split: option.splits if_splits)

subsection \<open>The upload phase of handleFileUpload\<close>

lemma newProject_clip: "newProject clip now = \<lparr>id_p = decimal now, name_p = ''clip.mp4'', status = uploading, progress = 0,
      duration_p = None, size_p = Some ''5.0 MB'', aiSuggestions = None\<rparr>"
  by (simp add: newProject_def clip_def toFixed1_def decimal.simps digit_char_def)

lemma decimal_now: "decimal 1700000000000 = ''1700000000000''"
  by (simp add: decimal.simps digit_char_def)

lemma valid_clip: "valid (validateVideoFile clip)"
  by (simp add: validateVideoFile_def clip_def allowedTypes_def maxSize_def)

lemma length_progress_of_reports:
  "length (progress_of pid (reports pid xs ps)) = length (progress_of pid ps)"
  unfolding reports_def
  by (induction xs arbitrary: ps) (simp_all add: progress_of_onProgress)

lemma progress_of_reports_le:
  "xs \<noteq> [] \<Longrightarrow> v \<in> set (progress_of pid (reports pid xs ps)) \<Longrightarrow> v \<le> 15"
  unfolding reports_def
  by (induction xs arbitrary: ps rule: rev_induct) (auto simp: progress_of_onProgress)

lemma hd_progress_of_reports:
  "progress_of pid ps = 0 # rest \<Longrightarrow> hd (progress_of pid (reports pid xs ps)) \<le> 15"
proof (cases xs)
  case Nil
  assume "progress_of pid ps = 0 # rest"
  with Nil show ?thesis by (simp add: reports_def)
next
  case (Cons x xs')
  assume a: "progress_of pid ps = 0 # rest"
  have "progress_of pid (reports pid xs ps) \<noteq> []"
    using length_progress_of_reports [of pid xs ps] a by (metis length_0_conv list.distinct(1))
  then have "hd (progress_of pid (reports pid xs ps)) \<in> set (progress_of pid (reports pid xs ps))"
    by simp
  with Cons show ?thesis using progress_of_reports_le [of xs _ pid ps] by blast
qed

text \<open>
  Claim C4. While a job is being transported, every progress value reported by the
  storage layer is capped: after \<open>onProgress percent\<close> each project with the job's id
  has progress \<open>min percent 15\<close>, which never exceeds the transport weight 15, and the
  job created by \<open>handleFileUpload\<close> stays at or below 15 after any sequence of reports.
  When the transport completes, the job's progress is exactly 15 and its status is
  \<open>processing\<close>.
\<close>

theorem transport_progress_capped:
  assumes "handleFileUpload user file now prev = Inr ps"
  shows "progress_of (decimal now) (reports (decimal now) percents ps) \<noteq> []
       \<and> hd (progress_of (decimal now) (reports (decimal now) percents ps)) \<le> 15
       \<and> (\<forall>v\<in>set (progress_of (decimal now) (onProgress (decimal now) percent q)).
             v = min percent 15 \<and> v \<le> 15)
       \<and> (\<forall>v\<in>set (progress_of (decimal now)
                      (uploadComplete (decimal now) (reports (decimal now) percents ps))). v = 15)
       \<and> (\<forall>st\<in>set (status_of (decimal now)
                      (uploadComplete (decimal now) (reports (decimal now) percents ps))).
             st = processing)"
proof -
  from progress_of_created [OF assms]
  have c: "progress_of (decimal now) ps = 0 # progress_of (decimal now) prev" .
  have "progress_of (decimal now) (reports (decimal now) percents ps) \<noteq> []"
    using length_progress_of_reports [of "decimal now" percents ps] c
    by (metis length_0_conv list.distinct(1))
  moreover note hd_progress_of_reports [OF c, of percents]
  ultimately show ?thesis
    by (simp add: progress_of_onProgress progress_of_uploadComplete status_of_uploadComplete)
qed

theorem transport_progress_capped_witness:
  "handleFileUpload (Some ''u1'') clip 1700000000000 [] = Inr [newProject clip 1700000000000]
   \<and> progress_of ''1700000000000'' (reports ''1700000000000'' [8, 40, 100] [newProject clip 1700000000000]) = [15]
   \<and> progress_of ''1700000000000'' (onProgress ''1700000000000'' 8 [newProject clip 1700000000000]) = [8]
   \<and> progress_of ''1700000000000''
        (uploadComplete ''1700000000000'' (reports ''1700000000000'' [8, 40, 100] [newProject clip 1700000000000])) = [15]
   \<and> status_of ''1700000000000''
        (uploadComplete ''1700000000000'' (reports ''1700000000000'' [8, 40, 100] [newProject clip 1700000000000])) = [processing]"
proof -
  let ?job = "newProject clip 1700000000000"
  have created: "handleFileUpload (Some ''u1'') clip 1700000000000 [] = Inr [?job]"
    by (simp add: handleFileUpload_def valid_clip)
  have job: "progress_of ''1700000000000'' [?job] = [0]" "status_of ''1700000000000'' [?job] = [uploading]"
    by (simp_all add: newProject_clip decimal_now progress_of_def status_of_def)
  have r: "progress_of ''1700000000000'' (reports ''1700000000000'' [8, 40, 100] [?job]) = [15]"
    by (simp add: reports_def progress_of_onProgress job)
  have s: "status_of ''1700000000000'' (reports ''1700000000000'' [8, 40, 100] [?job]) = [uploading]"
    by (simp add: newProject_clip decimal_now reports_def onProgress_def status_of_def)
  have p8: "progress_of ''1700000000000'' (onProgress ''1700000000000'' 8 [?job]) = [8]"
    by (simp add: progress_of_onProgress job)
  from transport_progress_capped [OF created, of "[8, 40, 100]" 8 "[?job]"]
  show ?thesis
    by (simp add: created r s p8 decimal_now progress_of_uploadComplete status_of_uploadComplete)
qed

subsection \<open>Submitting a file\<close>

text \<open>
  Claim C5 says that submitting a second job for an asset that already has an active job
  fails with an \<open>AlreadyProcessingError\<close>. \<open>handleFileUpload\<close> has no such test. In this
  run the same file is submitted twice by the same user, half a second apart, while the
  first job is still uploading: the second call is accepted and the list then holds two
  uploading jobs for the file.
\<close>

theorem second_submission_accepted:
  "handleFileUpload (Some ''u1'') clip 1700000000000 []
     = Inr [\<lparr>id_p = ''1700000000000'', name_p = ''clip.mp4'', status = uploading, progress = 0,
             duration_p = None, size_p = Some ''5.0 MB'', aiSuggestions = None\<rparr>]
   \<and> handleFileUpload (Some ''u1'') clip 1700000000500
       [\<lparr>id_p = ''1700000000000'', name_p = ''clip.mp4'', status = uploading, progress = 0,
         duration_p = None, size_p = Some ''5.0 MB'', aiSuggestions = None\<rparr>]
     = Inr [\<lparr>id_p = ''1700000000500'', name_p = ''clip.mp4'', status = uploading, progress = 0,
             duration_p = None, size_p = Some ''5.0 MB'', aiSuggestions = None\<rparr>,
            \<lparr>id_p = ''1700000000000'', name_p = ''clip.mp4'', status = uploading, progress = 0,
             duration_p = None, size_p = Some ''5.0 MB'', aiSuggestions = None\<rparr>]"
  by (simp add: handleFileUpload_def valid_clip newProject_clip decimal.simps digit_char_def)

text \<open>
  Claim C5, as the code has it. Whether a submission is accepted does not depend on the
  jobs already in the list: with a signed-in user and a file that passes validation,
  \<open>handleFileUpload\<close> always puts a new job (status \<open>uploading\<close>, progress 0, named
  after the file) in front of the unchanged list, also when the list holds an active job
  for the same file, and so also after that job has completed or failed. The only
  refusals are the silent return when nobody is signed in and the validation error.
\<close>

theorem submission_ignores_active_jobs:
  "(user \<noteq> None \<and> valid (validateVideoFile file) \<longrightarrow>
      handleFileUpload user file now prev = Inr (newProject file now # prev)
      \<and> status (newProject file now) = uploading \<and> progress (newProject file now) = 0
      \<and> name_p (newProject file now) = name_f file)
   \<and> (user = None \<longrightarrow> handleFileUpload user file now prev = Inl NotSignedIn)
   \<and> (user \<noteq> None \<and> \<not> valid (validateVideoFile file) \<longrightarrow>
      handleFileUpload user file now prev = Inl (UploadErrorToast (error_v (validateVideoFile file))))"
  by (cases user) (simp_all add: handleFileUpload_def newProject_def Let_def)

lemma name_clip: "name_f clip = ''clip.mp4''"
  by (simp add: clip_def)

theorem submission_ignores_active_jobs_witness:
  "handleFileUpload (Some ''u1'') clip 1700000000500 [newProject clip 1700000000000]
     = Inr [newProject clip 1700000000500, newProject clip 1700000000000]
   \<and> status (newProject clip 1700000000000) = uploading
   \<and> name_p (newProject clip 1700000000500) = name_p (newProject clip 1700000000000)
   \<and> handleFileUpload None clip 1700000000500 [] = Inl NotSignedIn
   \<and> handleFileUpload (Some ''u1'')
         \<lparr>name_f = ''notes.txt'', type_f = ''text/plain'', size_f = 12\<rparr> 1700000000500 []
       = Inl (UploadErrorToast (Some type_error_message))"
proof -
  have bad: "\<not> valid (validateVideoFile \<lparr>name_f = ''notes.txt'', type_f = ''text/plain'', size_f = 12\<rparr>)"
    "error_v (validateVideoFile \<lparr>name_f = ''notes.txt'', type_f = ''text/plain'', size_f = 12\<rparr>)
       = Some type_error_message"
    by (simp_all add: validateVideoFile_def allowedTypes_def)
  show ?thesis
    using submission_ignores_active_jobs [of "Some ''u1''" clip 1700000000500 "[newProject clip 1700000000000]"]
      submission_ignores_active_jobs [of None clip 1700000000500 "[]"]
      submission_ignores_active_jobs [of "Some ''u1''" "\<lparr>name_f = ''notes.txt'', type_f = ''text/plain'', size_f = 12\<rparr>" 1700000000500 "[]"]
    by (simp add: valid_clip bad newProject_clip name_clip)
qed

subsection \<open>simulateProcessing\<close>

lemma length_processingSteps: "length processingSteps = 7"
  by (simp add: processingSteps_def)

lemma target_bounds:
  assumes "i < 7"
  shows "15 \<le> snd (processingSteps ! i) \<and> snd (processingSteps ! i) \<le> 100"
proof -
  from assms have "i = 0 \<or> i = 1 \<or> i = 2 \<or> i = 3 \<or> i = 4 \<or> i = 5 \<or> i = 6" by arith
  then show ?thesis by (auto simp: processingSteps_def)
qed

lemma advance_defined:
  "currentStepIndex s < 7 \<Longrightarrow> \<exists>s' k'. advance rnd k s = Inr (s', k')"
  by (simp add: advance_def length_processingSteps Let_def)

lemma advance_undefined:
  "\<not> currentStepIndex s < 7 \<Longrightarrow> advance rnd k s = Inl TypeError"
  by (simp add: advance_def length_processingSteps)

lemma advance_mono:
  assumes "0 \<le> rnd k" and "advance rnd k s = Inr (s', k')"
  shows "progress_l s \<le> progress_l s'"
  using assms by (auto simp: advance_def Let_def split: if_splits)

lemma advance_range:
  assumes "0 \<le> rnd k" and "0 \<le> progress_l s" and "progress_l s \<le> 100"
    and "advance rnd k s = Inr (s', k')"
  shows "0 \<le> progress_l s' \<and> progress_l s' \<le> 100"
proof -
  from assms(4) have i: "currentStepIndex s < 7"
    by (auto simp: advance_def length_processingSteps split: if_splits)
  from target_bounds [OF i] assms show ?thesis
    by (auto simp: advance_def Let_def length_processingSteps split: if_splits)
qed

lemma progress_of_generate:
  assumes "generateAISuggestions snap pid rnd (k, ps) = (k', ps')"
  shows "progress_of pid' ps' = progress_of pid' ps"
proof -
  have "progress_of pid' (map (\<lambda>p. if id_p p = pid then p\<lparr>aiSuggestions := x\<rparr> else p) ps) = progress_of pid' ps" for x
    by (induction ps) (auto simp: progress_of_def)
  with assms show ?thesis
    by (auto simp: generateAISuggestions_def split: option.splits prod.splits)
qed

lemma status_of_generate:
  assumes "generateAISuggestions snap pid rnd (k, ps) = (k', ps')"
  shows "status_of pid' ps' = status_of pid' ps"
proof -
  have "status_of pid' (map (\<lambda>p. if id_p p = pid then p\<lparr>aiSuggestions := x\<rparr> else p) ps) = status_of pid' ps" for x
    by (induction ps) (auto simp: status_of_def)
  with assms show ?thesis
    by (auto simp: generateAISuggestions_def split: option.splits prod.splits)
qed

lemma progress_of_set:
  "progress_of pid (map (\<lambda>p. if id_p p = pid then p\<lparr>status := st, progress := v\<rparr> else p) ps)
     = map (\<lambda>_. v) (progress_of pid ps)"
  by (induction ps) (simp_all add: progress_of_def)

lemma status_of_set:
  "status_of pid (map (\<lambda>p. if id_p p = pid then p\<lparr>status := st, progress := v\<rparr> else p) ps)
     = map (\<lambda>_. st) (status_of pid ps)"
  by (induction ps) (simp_all add: status_of_def)

lemma progress_of_done:
  "progress_of pid (map (\<lambda>p. if id_p p = pid then p\<lparr>status := st, progress := v, duration_p := d\<rparr> else p) ps)
     = map (\<lambda>_. v) (progress_of pid ps)"
  by (induction ps) (simp_all add: progress_of_def)

lemma status_of_done:
  "status_of pid (map (\<lambda>p. if id_p p = pid then p\<lparr>status := st, progress := v, duration_p := d\<rparr> else p) ps)
     = map (\<lambda>_. st) (status_of pid ps)"
  by (induction ps) (simp_all add: status_of_def)

text \<open>One firing while the interval is set.\<close>

lemma interval_callback_step:
  assumes "timer r = Some s" and "currentStepIndex s < 7"
  shows "\<exists>r'. interval_callback snap pid rnd r = Inr r' \<and>
           (case timer r' of
              None \<Rightarrow> progress_of pid (projects r') = map (\<lambda>_. 100) (progress_of pid (projects r))
                     \<and> status_of pid (projects r') = map (\<lambda>_. completed) (status_of pid (projects r))
            | Some s' \<Rightarrow> currentStepIndex s' < 7 \<and> progress_l s' < 100
                     \<and> progress_of pid (projects r') = map (\<lambda>_. progress_l s') (progress_of pid (projects r))
                     \<and> status_of pid (projects r')
                         = map (\<lambda>_. if progress_l s' < 20 then uploading else processing)
                               (status_of pid (projects r)))"
proof -
  from advance_defined [OF assms(2)] obtain s' k' where a: "advance rnd (calls r) s = Inr (s', k')"
    by blast
  show ?thesis
  proof (cases "progress_l s' \<ge> 100 \<or> currentStepIndex s' \<ge> 7")
    case True
    obtain k'' ps'' where g: "generateAISuggestions snap pid rnd
        (k', map (\<lambda>p. if id_p p = pid
                      then p\<lparr>status := completed, progress := 100, duration_p := Some ''1:45''\<rparr>
                      else p) (projects r)) = (k'', ps'')"
      by (cases "generateAISuggestions snap pid rnd
        (k', map (\<lambda>p. if id_p p = pid
                      then p\<lparr>status := completed, progress := 100, duration_p := Some ''1:45''\<rparr>
                      else p) (projects r))") blast
    from True assms(1) a g show ?thesis
      using progress_of_generate [OF g, of pid] status_of_generate [OF g, of pid]
      by (simp add: interval_callback_def length_processingSteps Let_def
          progress_of_done status_of_done)
  next
    case False
    then show ?thesis
      using assms(1) a
      by (simp add: interval_callback_def length_processingSteps Let_def
          progress_of_set status_of_set)
  qed
qed

lemma interval_callback_cleared:
  "timer r = None \<Longrightarrow> interval_callback snap pid rnd r = Inr r"
  by (simp add: interval_callback_def)

lemma firings_invariant:
  assumes "case timer r of
             None \<Rightarrow> (\<forall>v\<in>set (progress_of pid (projects r)). v = 100)
                   \<and> (\<forall>st\<in>set (status_of pid (projects r)). st = completed)
           | Some s \<Rightarrow> currentStepIndex s < 7
                   \<and> (\<forall>v\<in>set (progress_of pid (projects r)). v < 100)
                   \<and> (\<forall>st\<in>set (status_of pid (projects r)). st \<noteq> completed)"
  shows "\<exists>r'. firings n snap pid rnd r = Inr r' \<and>
           (case timer r' of
              None \<Rightarrow> (\<forall>v\<in>set (progress_of pid (projects r')). v = 100)
                    \<and> (\<forall>st\<in>set (status_of pid (projects r')). st = completed)
            | Some s \<Rightarrow> currentStepIndex s < 7
                    \<and> (\<forall>v\<in>set (progress_of pid (projects r')). v < 100)
                    \<and> (\<forall>st\<in>set (status_of pid (projects r')). st \<noteq> completed))"
  using assms
proof (induction n arbitrary: r)
  case 0
  then show ?case by simp
next
  case (Suc n)
  show ?case
  proof (cases "timer r")
    case None
    with Suc.prems have "interval_callback snap pid rnd r = Inr r"
      by (simp add: interval_callback_cleared)
    with Suc.IH [OF Suc.prems] show ?thesis by simp
  next
    case (Some s)
    with Suc.prems have i: "currentStepIndex s < 7" by simp
    from interval_callback_step [OF Some i, of snap pid rnd]
    obtain r1 where r1: "interval_callback snap pid rnd r = Inr r1"
      and c: "case timer r1 of
              None \<Rightarrow> progress_of pid (projects r1) = map (\<lambda>_. 100) (progress_of pid (projects r))
                     \<and> status_of pid (projects r1) = map (\<lambda>_. completed) (status_of pid (projects r))
            | Some s' \<Rightarrow> currentStepIndex s' < 7 \<and> progress_l s' < 100
                     \<and> progress_of pid (projects r1) = map (\<lambda>_. progress_l s') (progress_of pid (projects r))
                     \<and> status_of pid (projects r1)
                         = map (\<lambda>_. if progress_l s' < 20 then uploading else processing)
                               (status_of pid (projects r))"
      by blast
    from c have "case timer r1 of
             None \<Rightarrow> (\<forall>v\<in>set (progress_of pid (projects r1)). v = 100)
                   \<and> (\<forall>st\<in>set (status_of pid (projects r1)). st = completed)
           | Some s \<Rightarrow> currentStepIndex s < 7
                   \<and> (\<forall>v\<in>set (progress_of pid (projects r1)). v < 100)
                   \<and> (\<forall>st\<in>set (status_of pid (projects r1)). st \<noteq> completed)"
      by (auto split: option.splits)
    from Suc.IH [OF this] r1 show ?thesis by simp
  qed
qed

text \<open>Evaluating single firings on concrete states.\<close>

lemma firings_numeral:
  "firings (numeral n) snap pid rnd r =
     (case interval_callback snap pid rnd r of
        Inl e \<Rightarrow> Inl e
      | Inr r' \<Rightarrow> firings (pred_numeral n) snap pid rnd r')"
  by (simp add: numeral_eq_Suc)

lemma callback_continue:
  assumes "i < 7" and "v < snd (processingSteps ! i)"
    and "min (v + (rnd k * 8 + 2)) (snd (processingSteps ! i)) < 100"
  shows "interval_callback snap pid rnd
           \<lparr>timer = Some \<lparr>progress_l = v, currentStepIndex = i\<rparr>, calls = k, projects = ps\<rparr>
         = Inr \<lparr>timer = Some \<lparr>progress_l = min (v + (rnd k * 8 + 2)) (snd (processingSteps ! i)),
                              currentStepIndex = i\<rparr>,
                calls = Suc k,
                projects = map (\<lambda>p. if id_p p = pid
                   then p\<lparr>status := (if min (v + (rnd k * 8 + 2)) (snd (processingSteps ! i)) < 20
                                        then uploading else processing),
                          progress := min (v + (rnd k * 8 + 2)) (snd (processingSteps ! i))\<rparr>
                   else p) ps\<rparr>"
  using assms by (auto simp add: interval_callback_def advance_def length_processingSteps Let_def)

lemma callback_next_step:
  assumes "Suc i < 7" and "\<not> v < snd (processingSteps ! i)" and "v < 100"
  shows "interval_callback snap pid rnd
           \<lparr>timer = Some \<lparr>progress_l = v, currentStepIndex = i\<rparr>, calls = k, projects = ps\<rparr>
         = Inr \<lparr>timer = Some \<lparr>progress_l = v, currentStepIndex = Suc i\<rparr>,
                calls = k,
                projects = map (\<lambda>p. if id_p p = pid
                   then p\<lparr>status := (if v < 20 then uploading else processing), progress := v\<rparr>
                   else p) ps\<rparr>"
  using assms by (simp add: interval_callback_def advance_def length_processingSteps Let_def)

lemma callback_finish:
  assumes "i < 7" and "v < snd (processingSteps ! i)"
    and "min (v + (rnd k * 8 + 2)) (snd (processingSteps ! i)) \<ge> 100"
  shows "interval_callback snap pid rnd
           \<lparr>timer = Some \<lparr>progress_l = v, currentStepIndex = i\<rparr>, calls = k, projects = ps\<rparr>
         = (case generateAISuggestions snap pid rnd (Suc k, map (\<lambda>p. if id_p p = pid
                                            then p\<lparr>status := completed, progress := 100,
                                                   duration_p := Some ''1:45''\<rparr>
                                            else p) ps) of (k', ps') \<Rightarrow> Inr \<lparr>timer = None, calls = k', projects = ps'\<rparr>)"
  using assms by (simp add: interval_callback_def advance_def length_processingSteps Let_def)

lemma uploaded_clip:
  "uploadComplete ''1700000000000'' (reports ''1700000000000'' [8, 40, 100] [newProject clip 1700000000000])
   = [\<lparr>id_p = ''1700000000000'', name_p = ''clip.mp4'', status = processing, progress = 15,
       duration_p = None, size_p = Some ''5.0 MB'', aiSuggestions = None\<rparr>]"
  by (simp add: newProject_clip decimal_now reports_def onProgress_def uploadComplete_def)

text \<open>
  Claim C1 asks that the progress of a job that is being processed never decreases from
  one observation to the next and stays within \<open>[0, 100]\<close>. The code does not keep the
  first half at the hand-over from the upload to \<open>simulateProcessing\<close>: the upload
  leaves the job at 15 with status \<open>processing\<close>, and \<open>simulateProcessing\<close> starts its
  local progress at 0, so the first firing of the interval writes a value between 2 and
  10 and the status \<open>uploading\<close>. The theorem evaluates one such run: the job is created
  at 0, three upload reports and the completion bring it to 15, and the first firing
  with the draw \<open>1 / 2\<close> puts it at 6.
\<close>

theorem progress_restarts_below_upload:
  "handleFileUpload (Some ''u1'') clip 1700000000000 [] = Inr [newProject clip 1700000000000]
   \<and> progress_of ''1700000000000'' [newProject clip 1700000000000] = [0]
   \<and> progress_of ''1700000000000''
        (reports ''1700000000000'' [8, 40, 100] [newProject clip 1700000000000]) = [15]
   \<and> progress_of ''1700000000000''
        (uploadComplete ''1700000000000''
          (reports ''1700000000000'' [8, 40, 100] [newProject clip 1700000000000])) = [15]
   \<and> status_of ''1700000000000''
        (uploadComplete ''1700000000000''
          (reports ''1700000000000'' [8, 40, 100] [newProject clip 1700000000000])) = [processing]
   \<and> firings 1 [] ''1700000000000'' (\<lambda>_. 1 / 2)
        (simulateProcessing 0
          (uploadComplete ''1700000000000''
            (reports ''1700000000000'' [8, 40, 100] [newProject clip 1700000000000])))
      = Inr \<lparr>timer = Some \<lparr>progress_l = 6, currentStepIndex = 0\<rparr>, calls = 1,
             projects = [\<lparr>id_p = ''1700000000000'', name_p = ''clip.mp4'', status = uploading,
                          progress = 6, duration_p = None, size_p = Some ''5.0 MB'',
                          aiSuggestions = None\<rparr>]\<rparr>"
proof -
  have a: "handleFileUpload (Some ''u1'') clip 1700000000000 [] = Inr [newProject clip 1700000000000]"
    by (simp add: handleFileUpload_def valid_clip)
  have b: "progress_of ''1700000000000'' [newProject clip 1700000000000] = [0]"
    by (simp add: newProject_clip decimal_now progress_of_def)
  have c: "progress_of ''1700000000000''
        (reports ''1700000000000'' [8, 40, 100] [newProject clip 1700000000000]) = [15]"
    by (simp add: reports_def progress_of_onProgress b)
  have d: "firings 1 [] ''1700000000000'' (\<lambda>_. 1 / 2)
        (simulateProcessing 0
          (uploadComplete ''1700000000000''
            (reports ''1700000000000'' [8, 40, 100] [newProject clip 1700000000000])))
      = Inr \<lparr>timer = Some \<lparr>progress_l = 6, currentStepIndex = 0\<rparr>, calls = 1,
             projects = [\<lparr>id_p = ''1700000000000'', name_p = ''clip.mp4'', status = uploading,
                          progress = 6, duration_p = None, size_p = Some ''5.0 MB'',
                          aiSuggestions = None\<rparr>]\<rparr>"
    by (simp add: uploaded_clip simulateProcessing_def sim_start_def callback_continue
        processingSteps_def)
  have e: "progress_of ''1700000000000''
        (uploadComplete ''1700000000000''
          (reports ''1700000000000'' [8, 40, 100] [newProject clip 1700000000000])) = [15]"
    "status_of ''1700000000000''
        (uploadComplete ''1700000000000''
          (reports ''1700000000000'' [8, 40, 100] [newProject clip 1700000000000])) = [processing]"
    by (simp_all add: uploaded_clip progress_of_def status_of_def)
  show ?thesis
    unfolding a b c d e by simp
qed

text \<open>
  The same happens for every draw and every project list: the first firing writes
  \<open>random * 8 + 2\<close>, which is below 10, over the 15 that the upload left.
\<close>

lemma first_firing_restarts:
  assumes "0 \<le> rnd k" and "rnd k < 1"
  shows "\<exists>r. interval_callback snap pid rnd (simulateProcessing k (uploadComplete pid ps)) = Inr r
           \<and> progress_of pid (projects r) = map (\<lambda>_. rnd k * 8 + 2) (progress_of pid ps)
           \<and> status_of pid (projects r) = map (\<lambda>_. uploading) (status_of pid ps)
           \<and> progress_of pid (uploadComplete pid ps) = map (\<lambda>_. 15) (progress_of pid ps)
           \<and> rnd k * 8 + 2 < 10"
proof -
  have m: "min (0 + (rnd k * 8 + 2)) (snd (processingSteps ! 0)) = rnd k * 8 + 2"
    using assms by (simp add: processingSteps_def)
  have "interval_callback snap pid rnd
           \<lparr>timer = Some \<lparr>progress_l = 0, currentStepIndex = 0\<rparr>, calls = k,
            projects = uploadComplete pid ps\<rparr>
         = Inr \<lparr>timer = Some \<lparr>progress_l = rnd k * 8 + 2, currentStepIndex = 0\<rparr>,
                calls = Suc k,
                projects = map (\<lambda>p. if id_p p = pid
                   then p\<lparr>status := uploading, progress := rnd k * 8 + 2\<rparr>
                   else p) (uploadComplete pid ps)\<rparr>"
    using assms callback_continue [of 0 0 rnd k snap pid "uploadComplete pid ps"]
    unfolding m by (simp add: processingSteps_def)
  then show ?thesis
    using assms
    by (simp add: simulateProcessing_def sim_start_def progress_of_set status_of_set
        progress_of_uploadComplete status_of_uploadComplete)
qed

text \<open>
  Claim C2. A job's progress is 100 exactly when the job is completed. However many times
  the interval of \<open>simulateProcessing\<close> has fired after the upload finished, the
  callback has not failed, and every project with the job's id has status \<open>completed\<close>
  exactly when its progress is 100, which is exactly when the interval has been cleared:
  the firing that completes the job writes 100, and every earlier firing writes a
  progress below 100 with a status other than \<open>completed\<close>.
\<close>

theorem progress_100_iff_completed:
  "\<exists>r. firings n snapshot pid rnd (simulateProcessing k (uploadComplete pid ps)) = Inr r \<and>
       (\<forall>p\<in>set (projects r). id_p p = pid \<longrightarrow>
           (status p = completed \<longleftrightarrow> progress p = 100)
         \<and> (status p = completed \<longleftrightarrow> timer r = None))"
proof -
  let ?r0 = "simulateProcessing k (uploadComplete pid ps)"
  have "case timer ?r0 of
             None \<Rightarrow> (\<forall>v\<in>set (progress_of pid (projects ?r0)). v = 100)
                   \<and> (\<forall>st\<in>set (status_of pid (projects ?r0)). st = completed)
           | Some s \<Rightarrow> currentStepIndex s < 7
                   \<and> (\<forall>v\<in>set (progress_of pid (projects ?r0)). v < 100)
                   \<and> (\<forall>st\<in>set (status_of pid (projects ?r0)). st \<noteq> completed)"
    by (simp add: simulateProcessing_def sim_start_def progress_of_uploadComplete
        status_of_uploadComplete)
  from firings_invariant [OF this, of n snapshot rnd]
  obtain r where r: "firings n snapshot pid rnd ?r0 = Inr r"
    and c: "case timer r of
              None \<Rightarrow> (\<forall>v\<in>set (progress_of pid (projects r)). v = 100)
                    \<and> (\<forall>st\<in>set (status_of pid (projects r)). st = completed)
            | Some s \<Rightarrow> currentStepIndex s < 7
                    \<and> (\<forall>v\<in>set (progress_of pid (projects r)). v < 100)
                    \<and> (\<forall>st\<in>set (status_of pid (projects r)). st \<noteq> completed)"
    by blast
  have "(status p = completed \<longleftrightarrow> progress p = 100) \<and> (status p = completed \<longleftrightarrow> timer r = None)"
    if "p \<in> set (projects r)" and "id_p p = pid" for p
    using c in_progress_of [OF that] in_status_of [OF that]
    by (cases "timer r") auto
  with r show ?thesis by blast
qed

theorem progress_100_iff_completed_witness:
  "firings 1 [] ''1700000000000'' (\<lambda>_. 7 / 8)
     (simulateProcessing 0 (uploadComplete ''1700000000000'' [newProject clip 1700000000000]))
   = Inr \<lparr>timer = Some \<lparr>progress_l = 9, currentStepIndex = 0\<rparr>, calls = 1,
          projects = [\<lparr>id_p = ''1700000000000'', name_p = ''clip.mp4'', status = uploading,
                       progress = 9, duration_p = None, size_p = Some ''5.0 MB'',
                       aiSuggestions = None\<rparr>]\<rparr>
   \<and> firings 19 [] ''1700000000000'' (\<lambda>_. 7 / 8)
     (simulateProcessing 0 (uploadComplete ''1700000000000'' [newProject clip 1700000000000]))
   = Inr \<lparr>timer = Some \<lparr>progress_l = 99, currentStepIndex = 6\<rparr>, calls = 13,
          projects = [\<lparr>id_p = ''1700000000000'', name_p = ''clip.mp4'', status = processing,
                       progress = 99, duration_p = None, size_p = Some ''5.0 MB'',
                       aiSuggestions = None\<rparr>]\<rparr>
   \<and> firings 20 [] ''1700000000000'' (\<lambda>_. 7 / 8)
     (simulateProcessing 0 (uploadComplete ''1700000000000'' [newProject clip 1700000000000]))
   = Inr \<lparr>timer = None, calls = 14,
          projects = [\<lparr>id_p = ''1700000000000'', name_p = ''clip.mp4'', status = completed,
                       progress = 100, duration_p = Some ''1:45'', size_p = Some ''5.0 MB'',
                       aiSuggestions = None\<rparr>]\<rparr>"
proof -
  let ?start = "simulateProcessing 0 (uploadComplete ''1700000000000'' [newProject clip 1700000000000])"
  have s: "?start = \<lparr>timer = Some \<lparr>progress_l = 0, currentStepIndex = 0\<rparr>, calls = 0,
      projects = [\<lparr>id_p = ''1700000000000'', name_p = ''clip.mp4'', status = processing,
                   progress = 15, duration_p = None, size_p = Some ''5.0 MB'',
                   aiSuggestions = None\<rparr>]\<rparr>"
    by (simp add: simulateProcessing_def sim_start_def uploadComplete_def newProject_clip decimal_now)
  have f1: "firings 1 [] ''1700000000000'' (\<lambda>_. 7 / 8) ?start
   = Inr \<lparr>timer = Some \<lparr>progress_l = 9, currentStepIndex = 0\<rparr>, calls = 1,
          projects = [\<lparr>id_p = ''1700000000000'', name_p = ''clip.mp4'', status = uploading,
                       progress = 9, duration_p = None, size_p = Some ''5.0 MB'',
                       aiSuggestions = None\<rparr>]\<rparr>"
    unfolding s by (simp add: callback_continue processingSteps_def)
  have f19: "firings 19 [] ''1700000000000'' (\<lambda>_. 7 / 8) ?start
   = Inr \<lparr>timer = Some \<lparr>progress_l = 99, currentStepIndex = 6\<rparr>, calls = 13,
          projects = [\<lparr>id_p = ''1700000000000'', name_p = ''clip.mp4'', status = processing,
                       progress = 99, duration_p = None, size_p = Some ''5.0 MB'',
                       aiSuggestions = None\<rparr>]\<rparr>"
    unfolding s
    by (simp add: firings_numeral callback_continue callback_next_step processingSteps_def)
  have f20: "firings 20 [] ''1700000000000'' (\<lambda>_. 7 / 8) ?start
   = Inr \<lparr>timer = None, calls = 14,
          projects = [\<lparr>id_p = ''1700000000000'', name_p = ''clip.mp4'', status = completed,
                       progress = 100, duration_p = Some ''1:45'', size_p = Some ''5.0 MB'',
                       aiSuggestions = None\<rparr>]\<rparr>"
    unfolding s
    by (simp add: firings_numeral callback_continue callback_next_step callback_finish
        processingSteps_def generateAISuggestions_def)
  show ?thesis
    using progress_100_iff_completed [of 1 "[]" "''1700000000000''" "\<lambda>_. 7 / 8" 0 "[newProject clip 1700000000000]"]
      progress_100_iff_completed [of 20 "[]" "''1700000000000''" "\<lambda>_. 7 / 8" 0 "[newProject clip 1700000000000]"]
    unfolding f1 f19 f20 by simp
qed

subsection \<open>generateAISuggestions\<close>

lemma build_suggestions_confidence:
  assumes "\<forall>i. 0 \<le> rnd i \<and> rnd i < 1" and "s \<in> set (fst (build_suggestions rnd k))"
  shows "0 \<le> confidence s \<and> confidence s \<le> 1"
proof -
  have r: "0 \<le> rnd i" "rnd i < 1" for i using assms(1) by auto
  from assms(2) r [of "k + 1"] r [of "k + 6"] r [of "8 + k"] r [of "4 + k"]
  show ?thesis
    by (auto simp: build_suggestions_def Let_def split: if_splits)
qed

text \<open>
  Claim C7. Whatever values in \<open>[0, 1)\<close> the calls of \<^verbatim>\<open>Math.random()\<close> return,
  every suggestion that \<open>generateAISuggestions\<close> builds has a confidence in \<open>[0, 1]\<close>,
  and the only suggestion list the call stores in a project is the one it built.
\<close>

theorem suggestion_confidence_in_unit_interval:
  assumes "\<forall>i. 0 \<le> rnd i \<and> rnd i < 1"
  shows "(\<forall>s\<in>set (fst (build_suggestions rnd k)). 0 \<le> confidence s \<and> confidence s \<le> 1)
       \<and> (\<forall>p\<in>set (snd (generateAISuggestions snapshot projectId rnd (k, prev))).
             p \<in> set prev \<or> aiSuggestions p = Some (fst (build_suggestions rnd k)))"
proof
  show "\<forall>s\<in>set (fst (build_suggestions rnd k)). 0 \<le> confidence s \<and> confidence s \<le> 1"
    using build_suggestions_confidence [OF assms] by blast
next
  show "\<forall>p\<in>set (snd (generateAISuggestions snapshot projectId rnd (k, prev))).
             p \<in> set prev \<or> aiSuggestions p = Some (fst (build_suggestions rnd k))"
    by (cases "find (\<lambda>p. id_p p = projectId) snapshot")
       (auto simp: generateAISuggestions_def split: prod.splits)
qed

lemma build_half: "build_suggestions (\<lambda>_. 1 / 2) 0 =
   ([\<lparr>type_s = ''scene_detection'', title = ''Scene Detection'',
      description = ''Found 9 distinct scenes. Auto-cut recommended.'',
      confidence = 9 / 10, action = ''auto_cut''\<rparr>,
     \<lparr>type_s = ''audio_sync'', title = ''Audio Enhancement'',
      description = ''Background noise found at 1:30. Auto-fix available.'',
      confidence = 33 / 40, action = ''fix_audio''\<rparr>,
     \<lparr>type_s = ''quality_enhancement'', title = ''Quality Enhancement'',
      description = ''Video quality can be improved by 22%.'',
      confidence = 4 / 5, action = ''enhance_quality''\<rparr>], 9)"
  by (simp add: build_suggestions_def js_int_toString_def decimal.simps digit_char_def
      issue_at_def audioIssues_def padStart_def)

theorem suggestion_confidence_in_unit_interval_witness:
  "(0::real) \<le> 1 / 2 \<and> (1::real) / 2 < 1
   \<and> snd (generateAISuggestions [newProject clip 1700000000000] ''1700000000000'' (\<lambda>_. 1 / 2)
          (0, [newProject clip 1700000000000]))
       = [(newProject clip 1700000000000)\<lparr>aiSuggestions := Some (fst (build_suggestions (\<lambda>_. 1 / 2) 0))\<rparr>]
   \<and> map confidence (fst (build_suggestions (\<lambda>_. 1 / 2) 0)) = [9 / 10, 33 / 40, 4 / 5]
   \<and> 0 \<le> confidence (fst (build_suggestions (\<lambda>_. 1 / 2) 0) ! 0)
   \<and> confidence (fst (build_suggestions (\<lambda>_. 1 / 2) 0) ! 0) \<le> 1
   \<and> 0 \<le> confidence (fst (build_suggestions (\<lambda>_. 1 / 2) 0) ! 1)
   \<and> confidence (fst (build_suggestions (\<lambda>_. 1 / 2) 0) ! 1) \<le> 1
   \<and> 0 \<le> confidence (fst (build_suggestions (\<lambda>_. 1 / 2) 0) ! 2)
   \<and> confidence (fst (build_suggestions (\<lambda>_. 1 / 2) 0) ! 2) \<le> 1"
proof -
  let ?job = "newProject clip 1700000000000"
  let ?ss = "fst (build_suggestions (\<lambda>_. 1 / 2) 0)"
  have g: "snd (generateAISuggestions [?job] ''1700000000000'' (\<lambda>_. 1 / 2) (0, [?job]))
       = [?job\<lparr>aiSuggestions := Some ?ss\<rparr>]"
    by (simp add: generateAISuggestions_def newProject_clip decimal_now split: prod.splits)
  have d: "\<forall>i::nat. (0::real) \<le> (\<lambda>_. 1 / 2) i \<and> (\<lambda>_. 1 / 2) i < (1::real)" by simp
  from suggestion_confidence_in_unit_interval [OF d, of 0 "[?job]" "''1700000000000''" "[?job]"]
  have "\<forall>s\<in>set ?ss. 0 \<le> confidence s \<and> confidence s \<le> 1" by blast
  then show ?thesis using g by (simp add: build_half)
qed

section \<open>Properties of the timeline\<close>

subsection \<open>The segments that are drawn\<close>

lemma length_defaultSegments: "length defaultSegments = 5"
  by (simp add: defaultSegments_def)

text \<open>
  Claim C3 says that in every timeline segment index the segments are pairwise disjoint,
  in ascending order of \<open>start\<close>, and each within \<open>0 \<le> start < end \<le> duration\<close>. The
  component checks none of this: it draws whatever non-empty \<open>segments\<close> list its caller
  supplies. Here the caller's two segments \<open>[0, 25)\<close> and \<open>[20, 30)\<close> come back
  unchanged, and they intersect.
\<close>

theorem caller_segments_unchecked:
  "timelineSegments
     [\<lparr>id_t = ''a'', start = 0, end_t = 25, type_t = scene, confidence_t = 0.9,
       label = ''A'', color = ''bg-blue-500''\<rparr>,
      \<lparr>id_t = ''b'', start = 20, end_t = 30, type_t = audio, confidence_t = 0.8,
       label = ''B'', color = ''bg-red-500''\<rparr>]
   = [\<lparr>id_t = ''a'', start = 0, end_t = 25, type_t = scene, confidence_t = 0.9,
       label = ''A'', color = ''bg-blue-500''\<rparr>,
      \<lparr>id_t = ''b'', start = 20, end_t = 30, type_t = audio, confidence_t = 0.8,
       label = ''B'', color = ''bg-red-500''\<rparr>]
   \<and> \<not> (end_t (timelineSegments
              [\<lparr>id_t = ''a'', start = 0, end_t = 25, type_t = scene, confidence_t = 0.9,
                label = ''A'', color = ''bg-blue-500''\<rparr>,
               \<lparr>id_t = ''b'', start = 20, end_t = 30, type_t = audio, confidence_t = 0.8,
                label = ''B'', color = ''bg-red-500''\<rparr>] ! 0)
          \<le> start (timelineSegments
              [\<lparr>id_t = ''a'', start = 0, end_t = 25, type_t = scene, confidence_t = 0.9,
                label = ''A'', color = ''bg-blue-500''\<rparr>,
               \<lparr>id_t = ''b'', start = 20, end_t = 30, type_t = audio, confidence_t = 0.8,
                label = ''B'', color = ''bg-red-500''\<rparr>] ! 1)
        \<or> end_t (timelineSegments
              [\<lparr>id_t = ''a'', start = 0, end_t = 25, type_t = scene, confidence_t = 0.9,
                label = ''A'', color = ''bg-blue-500''\<rparr>,
               \<lparr>id_t = ''b'', start = 20, end_t = 30, type_t = audio, confidence_t = 0.8,
                label = ''B'', color = ''bg-red-500''\<rparr>] ! 1)
          \<le> start (timelineSegments
              [\<lparr>id_t = ''a'', start = 0, end_t = 25, type_t = scene, confidence_t = 0.9,
                label = ''A'', color = ''bg-blue-500''\<rparr>,
               \<lparr>id_t = ''b'', start = 20, end_t = 30, type_t = audio, confidence_t = 0.8,
                label = ''B'', color = ''bg-red-500''\<rparr>] ! 0))"
  by (simp add: timelineSegments_def)

text \<open>
  Claim C3, as the code has it. The segments that are drawn when the caller supplies
  none, which is how \<open>App\<close> uses the component, are the five default segments. Any two
  of them are disjoint as intervals \<open>[start, end)\<close>, they are in strictly ascending order
  of \<open>start\<close>, and each satisfies \<open>0 \<le> start < end \<le> 154\<close>, the duration that \<open>App\<close>
  passes.
\<close>

theorem defaultSegments_well_formed:
  "timelineSegments [] = defaultSegments
   \<and> (\<forall>i<length defaultSegments. \<forall>j<length defaultSegments. i \<noteq> j \<longrightarrow>
         end_t (defaultSegments ! i) \<le> start (defaultSegments ! j)
         \<or> end_t (defaultSegments ! j) \<le> start (defaultSegments ! i))
   \<and> sorted_wrt (\<lambda>a b. start a < start b) defaultSegments
   \<and> (\<forall>s\<in>set defaultSegments. 0 \<le> start s \<and> start s < end_t s \<and> end_t s \<le> duration_App)"
proof -
  have idx: "i = 0 \<or> i = 1 \<or> i = 2 \<or> i = 3 \<or> i = 4" if "i < length defaultSegments" for i
    using that by (simp add: length_defaultSegments) arith
  have "end_t (defaultSegments ! i) \<le> start (defaultSegments ! j)
         \<or> end_t (defaultSegments ! j) \<le> start (defaultSegments ! i)"
    if "i < length defaultSegments" "j < length defaultSegments" "i \<noteq> j" for i j
    using idx [OF that(1)] idx [OF that(2)] that(3)
    by (auto simp: defaultSegments_def)
  moreover have "sorted_wrt (\<lambda>a b. start a < start b) defaultSegments"
    by (simp add: defaultSegments_def)
  moreover have "\<forall>s\<in>set defaultSegments. 0 \<le> start s \<and> start s < end_t s \<and> end_t s \<le> duration_App"
    by (simp add: defaultSegments_def duration_App_def)
  ultimately show ?thesis by (simp add: timelineSegments_def)
qed

theorem defaultSegments_well_formed_witness:
  "timelineSegments [] ! 0 = defaultSegments ! 0
   \<and> end_t (defaultSegments ! 0) \<le> start (defaultSegments ! 1)
   \<and> start (defaultSegments ! 3) < start (defaultSegments ! 4)
   \<and> 0 \<le> start (defaultSegments ! 4)
   \<and> start (defaultSegments ! 4) < end_t (defaultSegments ! 4)
   \<and> end_t (defaultSegments ! 4) \<le> duration_App
   \<and> end_t (defaultSegments ! 4) = 154"
  using defaultSegments_well_formed
  by (simp add: defaultSegments_def duration_App_def)

subsection \<open>Seeking by a click\<close>

text \<open>
  Claim C6 says that a seek to a time outside \<open>[0, duration)\<close> fails with a
  \<open>RangeError\<close> and is not mapped to a time inside the range. \<open>handleTimelineClick\<close>
  does the opposite. With the timeline 500 pixels wide and starting at \<open>x = 100\<close>, a click
  event at \<open>clientX = 0\<close> points at the time \<open>-30.8\<close>, which is outside \<open>[0, 154)\<close>;
  the handler raises nothing and calls \<open>onTimeChange 0\<close>.
\<close>

theorem seek_outside_is_not_refused:
  "newTime \<lparr>left = 100, width = 500\<rparr> 0 154 = Fin (- (154 / 5))
   \<and> \<not> (0 \<le> - (154 / 5 :: real) \<and> - (154 / 5 :: real) < 154)
   \<and> handleTimelineClick (Some \<lparr>left = 100, width = 500\<rparr>) 0 154 = Some (Fin 0)"
  by (simp add: handleTimelineClick_def newTime_def js_div_def)

text \<open>
  Claim C6, as the code has it. A click never fails: with an element in the ref,
  \<open>onTimeChange\<close> is always called. For a duration that is not negative its argument
  is a time in the closed interval \<open>[0, duration]\<close>, or NaN (which needs a timeline of
  width zero). When the width is not zero the argument is the time the click points at,
  \<open>(clientX - left) / width * duration\<close>, clamped into \<open>[0, duration]\<close>: a time below
  0 becomes 0, a time above the duration becomes the duration, and the duration itself,
  which lies outside \<open>[0, duration)\<close>, is passed on unchanged.
\<close>

theorem seek_is_clamped:
  assumes "0 \<le> duration"
  shows "((\<exists>t. handleTimelineClick (Some rect) clientX duration = Some (Fin t)
              \<and> 0 \<le> t \<and> t \<le> duration)
          \<or> handleTimelineClick (Some rect) clientX duration = Some NaN)
       \<and> (width rect \<noteq> 0 \<longrightarrow>
            newTime rect clientX duration = Fin ((clientX - left rect) / width rect * duration)
            \<and> handleTimelineClick (Some rect) clientX duration
               = Some (Fin (max 0 (min duration ((clientX - left rect) / width rect * duration)))))"
proof -
  have "(\<exists>t. Math_max 0 (Math_min duration x) = Fin t \<and> 0 \<le> t \<and> t \<le> duration)
        \<or> Math_max 0 (Math_min duration x) = NaN" for x
    using assms by (cases x) auto
  then show ?thesis
    by (auto simp: handleTimelineClick_def newTime_def js_div_def Let_def)
qed

theorem seek_is_clamped_witness:
  "(0::real) \<le> 154
   \<and> handleTimelineClick (Some \<lparr>left = 100, width = 500\<rparr>) 350 154 = Some (Fin 77)
   \<and> handleTimelineClick (Some \<lparr>left = 100, width = 500\<rparr>) 700 154 = Some (Fin 154)
   \<and> handleTimelineClick (Some \<lparr>left = 100, width = 500\<rparr>) 600 154 = Some (Fin 154)
   \<and> handleTimelineClick (Some \<lparr>left = 100, width = 500\<rparr>) 0 154 = Some (Fin 0)
   \<and> handleTimelineClick (Some \<lparr>left = 100, width = 0\<rparr>) 100 154 = Some NaN"
  using seek_is_clamped [of 154 "\<lparr>left = 100, width = 500\<rparr>" 350]
    seek_is_clamped [of 154 "\<lparr>left = 100, width = 500\<rparr>" 700]
    seek_is_clamped [of 154 "\<lparr>left = 100, width = 500\<rparr>" 600]
    seek_is_clamped [of 154 "\<lparr>left = 100, width = 500\<rparr>" 0]
    seek_is_clamped [of 154 "\<lparr>left = 100, width = 0\<rparr>" 100]
  by (simp add: handleTimelineClick_def newTime_def js_div_def)

subsection \<open>formatTime\<close>

lemma js_rem_nonneg:
  assumes "0 \<le> x"
  shows "\<lfloor>js_rem x 60\<rfloor> = \<lfloor>x\<rfloor> mod 60"
proof -
  have q: "\<lfloor>x / 60\<rfloor> = \<lfloor>x\<rfloor> div 60"
    using floor_divide_real_eq_div [of 60 x] by simp
  from assms have "js_trunc (x / 60) = \<lfloor>x / 60\<rfloor>"
    by (simp add: js_trunc_def)
  then have "js_rem x 60 = x - of_int (60 * (\<lfloor>x\<rfloor> div 60))"
    by (simp add: js_rem_def q)
  then have "\<lfloor>js_rem x 60\<rfloor> = \<lfloor>x\<rfloor> - 60 * (\<lfloor>x\<rfloor> div 60)"
    by (simp only: floor_diff_of_int)
  also have "\<dots> = \<lfloor>x\<rfloor> mod 60"
    by (simp add: minus_mult_div_eq_mod)
  finally show ?thesis .
qed

lemma two_digits:
  assumes "n < 60"
  shows "padStart 2 CHR ''0'' (js_int_toString (int n)) = [digit_char (n div 10), digit_char (n mod 10)]"
proof (cases "n < 10")
  case True
  then show ?thesis
    by (simp add: js_int_toString_def decimal.simps [of n] padStart_def digit_char_def)
next
  case False
  with assms have "n div 10 < 10" by simp
  with False show ?thesis
    by (simp add: js_int_toString_def decimal.simps [of n] decimal.simps [of "n div 10"]
        padStart_def)
qed

text \<open>
  Claim C10. The \<open>formatTime\<close> of \<open>App.tsx\<close> and the \<open>formatTime\<close> of
  \<open>VideoTimeline.tsx\<close> return the same string for every argument. For a non-negative
  number of seconds that string is the minutes \<open>\<lfloor>seconds / 60\<rfloor>\<close> as printed by
  \<open>toString\<close>, a colon, and exactly two decimal digits \<open>d1 d0\<close> whose value
  \<open>10 * d1 + d0 = \<lfloor>seconds\<rfloor> mod 60\<close> is below 60.
\<close>

theorem formatTime_agree:
  "formatTime_App seconds = formatTime_Timeline seconds
   \<and> (0 \<le> seconds \<longrightarrow>
        (\<exists>d1 d0. d1 < 6 \<and> d0 < 10
           \<and> int (10 * d1 + d0) = \<lfloor>seconds\<rfloor> mod 60
           \<and> formatTime_App seconds
              = js_int_toString \<lfloor>seconds / 60\<rfloor> @ '':'' @ [digit_char d1, digit_char d0]))"
proof
  show "formatTime_App seconds = formatTime_Timeline seconds"
    by (simp add: formatTime_App_def formatTime_Timeline_def)
next
  show "0 \<le> seconds \<longrightarrow>
        (\<exists>d1 d0. d1 < 6 \<and> d0 < 10
           \<and> int (10 * d1 + d0) = \<lfloor>seconds\<rfloor> mod 60
           \<and> formatTime_App seconds
              = js_int_toString \<lfloor>seconds / 60\<rfloor> @ '':'' @ [digit_char d1, digit_char d0])"
  proof
    assume nn: "0 \<le> seconds"
    define n where "n = nat (\<lfloor>seconds\<rfloor> mod 60)"
    have n: "int n = \<lfloor>seconds\<rfloor> mod 60" "n < 60"
      by (simp_all add: n_def)
    have "formatTime_App seconds
          = js_int_toString \<lfloor>seconds / 60\<rfloor> @ '':'' @ padStart 2 CHR ''0'' (js_int_toString (int n))"
      by (simp add: formatTime_App_def js_rem_nonneg [OF nn] n(1))
    also have "\<dots> = js_int_toString \<lfloor>seconds / 60\<rfloor> @ '':''
                      @ [digit_char (n div 10), digit_char (n mod 10)]"
      by (simp only: two_digits [OF n(2)])
    finally have f: "formatTime_App seconds = js_int_toString \<lfloor>seconds / 60\<rfloor> @ '':''
                      @ [digit_char (n div 10), digit_char (n mod 10)]" .
    have "n div 10 < 6" "n mod 10 < 10" "int (10 * (n div 10) + n mod 10) = \<lfloor>seconds\<rfloor> mod 60"
      using n by simp_all
    with f show "\<exists>d1 d0. d1 < 6 \<and> d0 < 10
           \<and> int (10 * d1 + d0) = \<lfloor>seconds\<rfloor> mod 60
           \<and> formatTime_App seconds
              = js_int_toString \<lfloor>seconds / 60\<rfloor> @ '':'' @ [digit_char d1, digit_char d0]"
      by blast
  qed
qed

lemma formatTime_154: "formatTime_App 154 = ''2:34''"
  by (simp add: formatTime_App_def js_rem_def js_trunc_def js_int_toString_def decimal.simps
      digit_char_def padStart_def)

lemma formatTime_frac: "formatTime_Timeline (119 / 2) = ''0:59''"
  by (simp add: formatTime_Timeline_def js_rem_def js_trunc_def js_int_toString_def decimal.simps
      digit_char_def padStart_def)

theorem formatTime_agree_witness:
  "(0::real) \<le> 154 \<and> formatTime_App 154 = ''2:34'' \<and> formatTime_Timeline 154 = ''2:34''
   \<and> formatTime_App (119 / 2) = ''0:59''"
  using formatTime_agree [of 154] formatTime_agree [of "119 / 2"]
  by (simp add: formatTime_154 formatTime_frac)

section \<open>Properties of the export estimates\<close>

lemma bit_length_bounds: "0 < n \<Longrightarrow> 2 ^ (bit_length n - 1) \<le> n \<and> n < 2 ^ bit_length n"
proof (induction n rule: bit_length.induct)
  case (1 n)
  show ?case
  proof (cases "n div 2 = 0")
    case True
    with "1.prems" have "n = 1" by (simp add: div_eq_0_iff) 
    then show ?thesis by (simp add: bit_length.simps)
  next
    case False
    with "1.IH" "1.prems" have ih: "2 ^ (bit_length (n div 2) - 1) \<le> n div 2" "n div 2 < 2 ^ bit_length (n div 2)"
      by simp_all
    have pos: "0 < bit_length (n div 2)" using False by (simp add: bit_length.simps [of "n div 2"])
    have b: "bit_length n = Suc (bit_length (n div 2))" using "1.prems" by (simp add: bit_length.simps [of n])
    have "(2::nat) ^ (bit_length n - 1) = 2 * 2 ^ (bit_length (n div 2) - 1)"
      using pos b by (cases "bit_length (n div 2)") simp_all
    also have "\<dots> \<le> 2 * (n div 2)" using ih(1) by simp
    also have "\<dots> \<le> n" by simp
    finally have lo: "2 ^ (bit_length n - 1) \<le> n" .
    have "n < 2 * (n div 2) + 2" by presburger
    also have "\<dots> \<le> 2 * 2 ^ bit_length (n div 2)" using ih(2) by simp
    finally have "n < 2 ^ bit_length n" using b by simp
    with lo show ?thesis by simp
  qed
qed

lemma exponent_bounds:
  assumes "x \<noteq> 0"
  shows "pow2 (exponent x) \<le> \<bar>x\<bar> \<and> \<bar>x\<bar> < pow2 (exponent x + 1)"
proof (cases "1 \<le> \<bar>x\<bar>")
  case True
  define n where "n = nat \<lfloor>\<bar>x\<bar>\<rfloor>"
  from True have n: "0 < n" "real n \<le> \<bar>x\<bar>" "\<bar>x\<bar> < real n + 1"
    by (simp_all add: n_def)
  from bit_length_bounds [OF n(1)] have b: "2 ^ (bit_length n - 1) \<le> n" "n < 2 ^ bit_length n" by simp_all
  have pos: "0 < bit_length n" using n(1) by (simp add: bit_length.simps [of n])
  have e: "exponent x = int (bit_length n) - 1" using True by (simp add: exponent_def n_def)
  have "pow2 (exponent x) = 2 ^ (bit_length n - 1)"
    using pos by (simp add: e pow2_def nat_diff_distrib')
  moreover have "pow2 (exponent x + 1) = 2 ^ bit_length n"
    by (simp add: e pow2_def)
  moreover have "(2::real) ^ (bit_length n - 1) \<le> real n"
    using b(1) by (metis of_nat_le_iff of_nat_numeral of_nat_power)
  moreover have "real n + 1 \<le> (2::real) ^ bit_length n"
  proof -
    from b(2) have "Suc n \<le> 2 ^ bit_length n" by simp
    then have "real (Suc n) \<le> real (2 ^ bit_length n)" by (simp only: of_nat_le_iff)
    then show ?thesis by simp
  qed
  ultimately show ?thesis using n(2,3) by linarith
next
  case False
  define y where "y = 1 / \<bar>x\<bar>"
  from False assms have y: "1 < y" by (simp add: y_def)
  define m where "m = nat \<lceil>y\<rceil> - 1"
  have c: "2 \<le> \<lceil>y\<rceil>" using y by linarith
  then have m: "0 < m" "real m < y" "y \<le> real m + 1"
    by (simp_all add: m_def) linarith+
  from bit_length_bounds [OF m(1)] have b: "2 ^ (bit_length m - 1) \<le> m" "m < 2 ^ bit_length m" by simp_all
  have pos: "0 < bit_length m" using m(1) by (simp add: bit_length.simps [of m])
  have e: "exponent x = - int (bit_length m)" using False by (simp add: exponent_def m_def y_def)
  have p1: "pow2 (exponent x) = 1 / 2 ^ bit_length m"
    by (simp add: e pow2_def)
  have p2: "pow2 (exponent x + 1) = 1 / 2 ^ (bit_length m - 1)"
    using pos by (cases "bit_length m") (simp_all add: e pow2_def)
  have "(2::real) ^ (bit_length m - 1) \<le> real m"
    using b(1) by (metis of_nat_le_iff of_nat_numeral of_nat_power)
  with m(2) have lo: "2 ^ (bit_length m - 1) < y" by linarith
  have "real m + 1 \<le> (2::real) ^ bit_length m"
  proof -
    from b(2) have "Suc m \<le> 2 ^ bit_length m" by simp
    then have "real (Suc m) \<le> real (2 ^ bit_length m)" by (simp only: of_nat_le_iff)
    then show ?thesis by simp
  qed
  with m(3) have hi: "y \<le> 2 ^ bit_length m" by linarith
  have xpos: "0 < \<bar>x\<bar>" using assms by simp
  have "1 / 2 ^ bit_length m \<le> \<bar>x\<bar>"
    using hi xpos by (simp add: y_def field_simps)
  moreover have "\<bar>x\<bar> < 1 / 2 ^ (bit_length m - 1)"
    using lo xpos by (simp add: y_def field_simps)
  ultimately show ?thesis by (simp add: p1 p2)
qed


text \<open>Some doubles, as \<open>binary64\<close> computes them.\<close>

lemma binary64_known_values:
  "binary64 (1 / 10) = 7205759403792794 / 2 ^ 56"
  "binary64 (3 / 10) = 5404319552844595 / 2 ^ 54"
  "binary64 (6 / 10) = 5404319552844595 / 2 ^ 53"
  "binary64 (7 / 10) = 6305039478318694 / 2 ^ 53"
  "binary64 (8 / 10) = 7205759403792794 / 2 ^ 53"
  "binary64 45 = 45"
  "binary64 2 = 2"
  by (simp_all add: binary64_def exponent_def bit_length.simps pow2_def round_half_even_def)

lemma estimatedSizeMB_other:
  assumes "resolution s \<notin> {''3840x2160'', ''1280x720'', ''854x480''}"
    and "resolution s \<notin> set Object_prototype_names"
  shows "estimatedSizeMB fl s = Some (Math_round (fl (fl (45 * 1) * fl (quality s / 100))))"
  using assms by (simp add: estimatedSizeMB_def resolutionMultiplier_def)

lemma estimatedTimeMin_other:
  assumes "resolution s \<notin> {''3840x2160'', ''1280x720'', ''854x480''}"
    and "resolution s \<notin> set Object_prototype_names"
  shows "estimatedTimeMin fl s = Some (Math_round (fl (fl (2 * 1) * fl (quality s / 100))))"
  using assms by (simp add: estimatedTimeMin_def resolutionMultiplier_def)

lemma estimatedSizeMB_inherited:
  "resolution s \<in> set Object_prototype_names \<Longrightarrow> estimatedSizeMB fl s = None"
  by (auto simp: estimatedSizeMB_def resolutionMultiplier_def Object_prototype_names_def)

lemma binary64_at_70:
  "binary64 (45 * 1) = 45"
  "binary64 (70 / 100) = 6305039478318694 / 2 ^ 53"
  "binary64 (45 * (6305039478318694 / 2 ^ 53)) = 8866461766385663 / 2 ^ 48"
  by (simp_all add: binary64_def exponent_def bit_length.simps pow2_def round_half_even_def)

lemma binary64_at_80:
  "binary64 (2 * 1) = 2"
  "binary64 (80 / 100) = 7205759403792794 / 2 ^ 53"
  "binary64 (45 * (7205759403792794 / 2 ^ 53)) = 36"
  "binary64 (2 * (7205759403792794 / 2 ^ 53)) = 7205759403792794 / 2 ^ 52"
  by (simp_all add: binary64_def exponent_def bit_length.simps pow2_def round_half_even_def)

lemma binary64_at_75:
  "binary64 (75 / 100) = 3 / 4"
  "binary64 (45 * (3 / 4)) = 135 / 4"
  by (simp_all add: binary64_def exponent_def bit_length.simps pow2_def round_half_even_def)

text \<open>
  Claim C8 says that the estimated size is \<open>round(45 * m * quality / 100)\<close>, with \<open>m = 1\<close>
  for every resolution string outside the table. Both parts fail on the code. At
  \<open>1920x1080\<close> and quality 70, a setting the quality slider reaches, the quotient
  \<open>70 / 100\<close> and the product are rounded to doubles, the product is
  \<open>31.499999999999996...\<close>, and the code shows 31 where the exact formula gives
  \<open>round(31.5) = 32\<close>. And for the resolution string \<open>constructor\<close> the lookup finds
  an inherited function instead of falling back to 1, so the estimate is NaN.
\<close>

theorem size_estimate_differs_from_exact_formula:
  "estimatedSizeMB binary64
     \<lparr>format = ''mp4'', resolution = ''1920x1080'', quality = 70, bitrate = 8000, fps = 30,
      codec = ''h264'', audioQuality = 192, includeSubtitles = False, watermark = False\<rparr>
   = Some 31
   \<and> estimatedSize (updateEstimates binary64
     \<lparr>format = ''mp4'', resolution = ''1920x1080'', quality = 70, bitrate = 8000, fps = 30,
      codec = ''h264'', audioQuality = 192, includeSubtitles = False, watermark = False\<rparr>)
   = ''~31 MB''
   \<and> Math_round (45 * 1 * 70 / 100) = 32
   \<and> estimatedSizeMB binary64
     \<lparr>format = ''mp4'', resolution = ''constructor'', quality = 80, bitrate = 8000, fps = 30,
      codec = ''h264'', audioQuality = 192, includeSubtitles = False, watermark = False\<rparr>
   = None
   \<and> estimatedSize (updateEstimates binary64
     \<lparr>format = ''mp4'', resolution = ''constructor'', quality = 80, bitrate = 8000, fps = 30,
      codec = ''h264'', audioQuality = 192, includeSubtitles = False, watermark = False\<rparr>)
   = ''~NaN MB''"
proof -
  let ?s = "\<lparr>format = ''mp4'', resolution = ''1920x1080'', quality = 70, bitrate = 8000, fps = 30,
      codec = ''h264'', audioQuality = 192, includeSubtitles = False, watermark = False\<rparr>"
  let ?c = "\<lparr>format = ''mp4'', resolution = ''constructor'', quality = 80, bitrate = 8000, fps = 30,
      codec = ''h264'', audioQuality = 192, includeSubtitles = False, watermark = False\<rparr>"
  have "estimatedSizeMB binary64 ?s
        = Some (Math_round (binary64 (binary64 (45 * 1) * binary64 (70 / 100))))"
    using estimatedSizeMB_other [of ?s binary64]
    by (simp add: Object_prototype_names_def)
  then have "estimatedSizeMB binary64 ?s = Some (Math_round (8866461766385663 / 2 ^ 48))"
    unfolding binary64_at_70 .
  then have a: "estimatedSizeMB binary64 ?s = Some 31"
    by (simp add: Math_round_def)
  have b: "estimatedSizeMB binary64 ?c = None"
    by (rule estimatedSizeMB_inherited) (simp add: Object_prototype_names_def)
  have c: "Math_round (45 * 1 * 70 / 100) = 32"
    by (simp add: Math_round_def)
  show ?thesis
    unfolding updateEstimates_def a b c
    by (simp add: number_toString_def js_int_toString_def decimal.simps digit_char_def)
qed

text \<open>
  Claim C8, as the code has it. Whatever the rounding \<open>fl\<close> of the arithmetic is, the
  estimates are a function of the pair (resolution, quality) alone: two settings that
  agree on these two fields get the same size and time estimates, whatever their other
  fields are. The size shown is \<open>~n MB\<close> where \<open>n\<close> is \<^verbatim>\<open>Math.round\<close> of the rounded
  product \<open>fl (fl (45 * m) * fl (quality / 100))\<close>, with \<open>m\<close> equal to 4 for
  \<open>3840x2160\<close>, 1 for \<open>1920x1080\<close>, the double \<open>fl 0.6\<close> for \<open>1280x720\<close>, the double
  \<open>fl 0.3\<close> for \<open>854x480\<close>, and 1 for any other resolution string that is not the name
  of a property inherited from \<^verbatim>\<open>Object.prototype\<close>; for those names the estimate is NaN.
\<close>

theorem estimates_depend_on_resolution_and_quality:
  "(resolution s = resolution s' \<and> quality s = quality s' \<longrightarrow>
      updateEstimates fl s = updateEstimates fl s')
   \<and> estimatedSize (updateEstimates fl s) = ''~'' @ number_toString (estimatedSizeMB fl s) @ '' MB''
   \<and> (resolution s = ''3840x2160'' \<longrightarrow>
        estimatedSizeMB fl s = Some (Math_round (fl (fl (45 * 4) * fl (quality s / 100)))))
   \<and> (resolution s = ''1920x1080'' \<longrightarrow>
        estimatedSizeMB fl s = Some (Math_round (fl (fl (45 * 1) * fl (quality s / 100)))))
   \<and> (resolution s = ''1280x720'' \<longrightarrow>
        estimatedSizeMB fl s = Some (Math_round (fl (fl (45 * fl 0.6) * fl (quality s / 100)))))
   \<and> (resolution s = ''854x480'' \<longrightarrow>
        estimatedSizeMB fl s = Some (Math_round (fl (fl (45 * fl 0.3) * fl (quality s / 100)))))
   \<and> (resolution s \<notin> {''3840x2160'', ''1920x1080'', ''1280x720'', ''854x480''}
        \<and> resolution s \<notin> set Object_prototype_names \<longrightarrow>
        estimatedSizeMB fl s = Some (Math_round (fl (fl (45 * 1) * fl (quality s / 100)))))
   \<and> (resolution s \<in> set Object_prototype_names \<longrightarrow> estimatedSizeMB fl s = None)"
  by (simp add: updateEstimates_def estimatedSizeMB_def estimatedTimeMin_def
      resolutionMultiplier_def Object_prototype_names_def)

theorem estimates_depend_on_resolution_and_quality_witness:
  "updateEstimates binary64 youtube = \<lparr>estimatedSize = ''~36 MB'', estimatedTime = ''2-3 minutes''\<rparr>
   \<and> updateEstimates binary64 (youtube\<lparr>format := ''webm'', bitrate := 20000, fps := 60,
        codec := ''vp9'', audioQuality := 320, includeSubtitles := True, watermark := True\<rparr>)
     = \<lparr>estimatedSize = ''~36 MB'', estimatedTime = ''2-3 minutes''\<rparr>
   \<and> estimatedSizeMB binary64 youtube = Some 36
   \<and> estimatedSizeMB binary64 (youtube\<lparr>resolution := ''1080x1080'', quality := 75\<rparr>) = Some 34
   \<and> estimatedSizeMB binary64 (youtube\<lparr>resolution := ''toString''\<rparr>) = None"
proof -
  have "estimatedSizeMB binary64 youtube
        = Some (Math_round (binary64 (binary64 (45 * 1) * binary64 (80 / 100))))"
    using estimatedSizeMB_other [of youtube binary64]
    by (simp add: youtube_def Object_prototype_names_def)
  then have "estimatedSizeMB binary64 youtube = Some (Math_round 36)"
    unfolding binary64_at_70 binary64_at_80 .
  then have sz: "estimatedSizeMB binary64 youtube = Some 36"
    by (simp add: Math_round_def)
  have "estimatedTimeMin binary64 youtube
        = Some (Math_round (binary64 (binary64 (2 * 1) * binary64 (80 / 100))))"
    using estimatedTimeMin_other [of youtube binary64]
    by (simp add: youtube_def Object_prototype_names_def)
  then have "estimatedTimeMin binary64 youtube = Some (Math_round (7205759403792794 / 2 ^ 52))"
    unfolding binary64_at_80 .
  then have tm: "estimatedTimeMin binary64 youtube = Some 2"
    by (simp add: Math_round_def)
  have u: "updateEstimates binary64 youtube
           = \<lparr>estimatedSize = ''~36 MB'', estimatedTime = ''2-3 minutes''\<rparr>"
    unfolding updateEstimates_def sz tm
    by (simp add: number_toString_def js_int_toString_def decimal.simps digit_char_def)
  have "estimatedSizeMB binary64 (youtube\<lparr>resolution := ''1080x1080'', quality := 75\<rparr>)
        = Some (Math_round (binary64 (binary64 (45 * 1) * binary64 (75 / 100))))"
    using estimatedSizeMB_other [of "youtube\<lparr>resolution := ''1080x1080'', quality := 75\<rparr>" binary64]
    by (simp add: Object_prototype_names_def)
  then have "estimatedSizeMB binary64 (youtube\<lparr>resolution := ''1080x1080'', quality := 75\<rparr>)
        = Some (Math_round (135 / 4))"
    unfolding binary64_at_70 binary64_at_75 .
  then have other: "estimatedSizeMB binary64 (youtube\<lparr>resolution := ''1080x1080'', quality := 75\<rparr>) = Some 34"
    by (simp add: Math_round_def)
  have y: "resolution youtube = ''1920x1080''" "quality youtube = 80"
    by (simp_all add: youtube_def)
  show ?thesis
    using estimates_depend_on_resolution_and_quality [of youtube
        "youtube\<lparr>format := ''webm'', bitrate := 20000, fps := 60,
        codec := ''vp9'', audioQuality := 320, includeSubtitles := True, watermark := True\<rparr>" binary64]
      estimates_depend_on_resolution_and_quality [of "youtube\<lparr>resolution := ''toString''\<rparr>" youtube binary64]
    unfolding u sz other
    by (simp add: Object_prototype_names_def)
qed

end
